theory Spec2Isabelle
  imports Complex_Main "HOL-Library.AList" "HOL-Library.Log_Nat"
begin

section \<open>JSON values and the JavaScript operations applied to them\<close>

text \<open>
  The handlers of \<^verbatim>\<open>client/components/App.jsx\<close> work on values decoded from JSON text.
  A decoded value is one of the six JSON kinds; an object keeps its members in insertion
  order. Numbers are kept as integers: the only thing the handlers ask of a number is
  whether it is zero (falsy) or not. A JavaScript value that may also be
  \<^verbatim>\<open>undefined\<close> is a \<open>json option\<close>, with \<open>None\<close> for \<^verbatim>\<open>undefined\<close>.
\<close>

datatype json =
    JNull
  | JBool bool
  | JNum int
  | JStr string
  | JArr "json list"
  | JObj "(string \<times> json) list"

datatype js_error = TypeError

text \<open>JavaScript truthiness: \<^verbatim>\<open>undefined\<close>, \<^verbatim>\<open>null\<close>, \<^verbatim>\<open>false\<close>, \<^verbatim>\<open>0\<close> and the empty
  string are falsy, every other value (every object and array included) is truthy.\<close>

fun truthy :: "json option \<Rightarrow> bool" where
  "truthy None = False"
| "truthy (Some JNull) = False"
| "truthy (Some (JBool b)) = b"
| "truthy (Some (JNum n)) = (n \<noteq> 0)"
| "truthy (Some (JStr s)) = (s \<noteq> [])"
| "truthy (Some (JArr vs)) = True"
| "truthy (Some (JObj kvs)) = True"

text \<open>The same for a field that holds a string when it is present.\<close>

fun truthy_str :: "string option \<Rightarrow> bool" where
  "truthy_str None = False"
| "truthy_str (Some s) = (s \<noteq> [])"

text \<open>\<^verbatim>\<open>a || b\<close> on optional strings.\<close>

definition or_str :: "string option \<Rightarrow> string option \<Rightarrow> string option" where
  "or_str a b = (if truthy_str a then a else b)"

text \<open>\<^verbatim>\<open>x || ""\<close> on a value read from a decoded object.\<close>

definition or_empty :: "json option \<Rightarrow> json" where
  "or_empty x = (case x of Some v \<Rightarrow> (if truthy x then v else JStr []) | None \<Rightarrow> JStr [])"

text \<open>\<^verbatim>\<open>typeof x === "object"\<close>: true of objects, arrays and \<^verbatim>\<open>null\<close>.\<close>

fun typeof_object :: "json option \<Rightarrow> bool" where
  "typeof_object (Some JNull) = True"
| "typeof_object (Some (JArr vs)) = True"
| "typeof_object (Some (JObj kvs)) = True"
| "typeof_object _ = False"

text \<open>
  Reading the property \<^verbatim>\<open>summary\<close> or \<^verbatim>\<open>reason\<close> of a decoded value (\<^verbatim>\<open>parsed.summary\<close>):
  on \<^verbatim>\<open>null\<close> the read throws a TypeError; on an object it gives the member or
  \<^verbatim>\<open>undefined\<close>; numbers, strings, booleans and arrays have no such property.
\<close>

fun get_prop :: "json \<Rightarrow> string \<Rightarrow> js_error + json option" where
  "get_prop JNull k = Inl TypeError"
| "get_prop (JObj kvs) k = Inr (map_of kvs k)"
| "get_prop _ k = Inr None"

text \<open>
  \<^verbatim>\<open>JSON.parse\<close> and \<^verbatim>\<open>JSON.stringify\<close> belong to the JavaScript runtime, not to the
  repository. The handlers take them as a parameter; \<open>None\<close> from the decoder is the
  SyntaxError that \<^verbatim>\<open>JSON.parse\<close> throws.
\<close>

record json_api =
  JSON_parse :: "string \<Rightarrow> json option"
  JSON_stringify :: "json \<Rightarrow> string"

subsection \<open>String predicates of the runtime\<close>

definition startsWith :: "string \<Rightarrow> string \<Rightarrow> bool" where
  "startsWith s p = (take (length p) s = p)"

definition endsWith :: "string \<Rightarrow> string \<Rightarrow> bool" where
  "endsWith s p = (length p \<le> length s \<and> drop (length s - length p) s = p)"

fun includes_str :: "string \<Rightarrow> string \<Rightarrow> bool" where
  "includes_str [] p = (p = [])"
| "includes_str (c # cs) p = (startsWith (c # cs) p \<or> includes_str cs p)"

subsection \<open>A reference encoder and decoder\<close>

text \<open>
  A concrete instance of the two runtime functions, used to run the handlers on examples.
  The encoder writes what \<^verbatim>\<open>JSON.stringify\<close> writes without an indent argument: no
  white space between tokens. The decoder reads the JSON grammar without fractions,
  exponents and \<^verbatim>\<open>\u\<close> escapes; its recursion is bounded by the length of the text,
  every recursive call being made after at least one character has been read.
\<close>

fun show_nat :: "nat \<Rightarrow> string" where
  "show_nat n =
     (if n < 10 then [char_of (48 + n)]
      else show_nat (n div 10) @ [char_of (48 + n mod 10)])"

definition show_int :: "int \<Rightarrow> string" where
  "show_int i = (if i < 0 then CHR ''-'' # show_nat (nat (- i)) else show_nat (nat i))"

fun join_comma :: "string list \<Rightarrow> string" where
  "join_comma [] = []"
| "join_comma [x] = x"
| "join_comma (x # y # ys) = x @ CHR '','' # join_comma (y # ys)"

definition hex_digit :: "nat \<Rightarrow> char" where
  "hex_digit n = (if n < 10 then char_of (48 + n) else char_of (87 + n))"

definition escape_char :: "char \<Rightarrow> string" where
  "escape_char c =
     (if c = CHR 0x22 then [CHR 0x5C, CHR 0x22]
      else if c = CHR 0x5C then [CHR 0x5C, CHR 0x5C]
      else if c = CHR 0x08 then [CHR 0x5C, CHR ''b'']
      else if c = CHR 0x0C then [CHR 0x5C, CHR ''f'']
      else if c = CHR 0x0A then [CHR 0x5C, CHR ''n'']
      else if c = CHR 0x0D then [CHR 0x5C, CHR ''r'']
      else if c = CHR 0x09 then [CHR 0x5C, CHR ''t'']
      else if (of_char c :: nat) < 32
        then [CHR 0x5C, CHR ''u'', CHR ''0'', CHR ''0'',
              hex_digit (of_char c div 16), hex_digit (of_char c mod 16)]
      else [c])"

definition quote :: "string \<Rightarrow> string" where
  "quote s = CHR 0x22 # concat (map escape_char s) @ [CHR 0x22]"

primrec json_stringify :: "json \<Rightarrow> string" where
  "json_stringify JNull = ''null''"
| "json_stringify (JBool b) = (if b then ''true'' else ''false'')"
| "json_stringify (JNum n) = show_int n"
| "json_stringify (JStr s) = quote s"
| "json_stringify (JArr vs) = CHR ''['' # join_comma (map json_stringify vs) @ '']''"
| "json_stringify (JObj kvs) =
     CHR ''{'' #
     join_comma (map (\<lambda>(k, t). quote k @ CHR '':'' # t) (map (map_prod id json_stringify) kvs))
     @ ''}''"

fun skip_ws :: "string \<Rightarrow> string" where
  "skip_ws [] = []"
| "skip_ws (c # cs) =
     (if c = CHR '' '' \<or> c = CHR 0x09 \<or> c = CHR 0x0A \<or> c = CHR 0x0D
      then skip_ws cs else c # cs)"

definition is_digit :: "char \<Rightarrow> bool" where
  "is_digit c = (48 \<le> (of_char c :: nat) \<and> (of_char c :: nat) \<le> 57)"

definition digits_value :: "string \<Rightarrow> nat" where
  "digits_value ds = foldl (\<lambda>acc c. 10 * acc + (of_char c - 48)) 0 ds"

text \<open>An integer literal: a non-empty run of digits without a superfluous leading zero.\<close>

definition parse_nat :: "string \<Rightarrow> (nat \<times> string) option" where
  "parse_nat s =
     (let ds = takeWhile is_digit s; r = dropWhile is_digit s
      in if ds = [] \<or> (length ds > 1 \<and> hd ds = CHR ''0'') then None
         else Some (digits_value ds, r))"

text \<open>The characters of a string literal after its opening quote, up to the closing one.\<close>

fun parse_chars :: "string \<Rightarrow> string \<Rightarrow> (string \<times> string) option" where
  "parse_chars acc [] = None"
| "parse_chars acc [c] = (if c = CHR 0x22 then Some (rev acc, []) else None)"
| "parse_chars acc (c # d # cs) =
     (if c = CHR 0x22 then Some (rev acc, d # cs)
      else if c = CHR 0x5C then
        (if d = CHR 0x22 \<or> d = CHR 0x5C \<or> d = CHR ''/'' then parse_chars (d # acc) cs
         else if d = CHR ''b'' then parse_chars (CHR 0x08 # acc) cs
         else if d = CHR ''f'' then parse_chars (CHR 0x0C # acc) cs
         else if d = CHR ''n'' then parse_chars (CHR 0x0A # acc) cs
         else if d = CHR ''r'' then parse_chars (CHR 0x0D # acc) cs
         else if d = CHR ''t'' then parse_chars (CHR 0x09 # acc) cs
         else None)
      else if (of_char c :: nat) < 32 then None
      else parse_chars (c # acc) (d # cs))"

fun parse_value :: "nat \<Rightarrow> string \<Rightarrow> (json \<times> string) option"
  and parse_elements :: "nat \<Rightarrow> json list \<Rightarrow> string \<Rightarrow> (json \<times> string) option"
  and parse_members :: "nat \<Rightarrow> (string \<times> json) list \<Rightarrow> string \<Rightarrow> (json \<times> string) option"
where
  "parse_value 0 s = None"
| "parse_value (Suc n) s =
     (case skip_ws s of
        [] \<Rightarrow> None
      | c # cs \<Rightarrow>
          if c = CHR ''{'' then
            (case skip_ws cs of
               [] \<Rightarrow> None
             | d # ds \<Rightarrow> if d = CHR ''}'' then Some (JObj [], ds) else parse_members n [] cs)
          else if c = CHR ''['' then
            (case skip_ws cs of
               [] \<Rightarrow> None
             | d # ds \<Rightarrow> if d = CHR '']'' then Some (JArr [], ds) else parse_elements n [] cs)
          else if c = CHR 0x22 then
            (case parse_chars [] cs of
               None \<Rightarrow> None
             | Some (str, r) \<Rightarrow> Some (JStr str, r))
          else if startsWith (c # cs) ''null'' then Some (JNull, drop 4 (c # cs))
          else if startsWith (c # cs) ''true'' then Some (JBool True, drop 4 (c # cs))
          else if startsWith (c # cs) ''false'' then Some (JBool False, drop 5 (c # cs))
          else if c = CHR ''-'' then
            (case parse_nat cs of
               None \<Rightarrow> None
             | Some (m, r) \<Rightarrow> Some (JNum (- int m), r))
          else
            (case parse_nat (c # cs) of
               None \<Rightarrow> None
             | Some (m, r) \<Rightarrow> Some (JNum (int m), r)))"
| "parse_elements 0 acc s = None"
| "parse_elements (Suc n) acc s =
     (case parse_value n s of
        None \<Rightarrow> None
      | Some (v, r) \<Rightarrow>
          (case skip_ws r of
             [] \<Rightarrow> None
           | c # cs \<Rightarrow>
               if c = CHR '','' then parse_elements n (acc @ [v]) cs
               else if c = CHR '']'' then Some (JArr (acc @ [v]), cs)
               else None))"
| "parse_members 0 acc s = None"
| "parse_members (Suc n) acc s =
     (case skip_ws s of
        [] \<Rightarrow> None
      | q # qs \<Rightarrow>
          if q \<noteq> CHR 0x22 then None
          else
            (case parse_chars [] qs of
               None \<Rightarrow> None
             | Some (k, r) \<Rightarrow>
                 (case skip_ws r of
                    [] \<Rightarrow> None
                  | c # cs \<Rightarrow>
                      if c \<noteq> CHR '':'' then None
                      else
                        (case parse_value n cs of
                           None \<Rightarrow> None
                         | Some (v, r') \<Rightarrow>
                             (case skip_ws r' of
                                [] \<Rightarrow> None
                              | e # es \<Rightarrow>
                                  if e = CHR '','' then parse_members n (AList.update k v acc) es
                                  else if e = CHR ''}'' then Some (JObj (AList.update k v acc), es)
                                  else None)))))"

definition json_parse :: "string \<Rightarrow> json option" where
  "json_parse s =
     (case parse_value (Suc (length s)) s of
        None \<Rightarrow> None
      | Some (v, r) \<Rightarrow> if skip_ws r = [] then Some v else None)"

definition ecma :: json_api where
  "ecma = \<lparr>JSON_parse = json_parse, JSON_stringify = json_stringify\<rparr>"

section \<open>Double-precision numbers\<close>

text \<open>
  JavaScript numbers are IEEE 754 double-precision values. Amplitudes and clock readings are
  kept as the rationals they denote; a literal of the source denotes the double nearest to
  it, and a subtraction gives the double nearest to the exact difference, ties going to the
  even significand. \<open>to_double\<close> is that rounding: the unit in the last place is \<open>2\<close> to
  the power \<open>e - 52\<close> where \<open>2^e \<le> |x| < 2^(e+1)\<close>, with \<open>e\<close> not below \<open>-1022\<close>
  (subnormal numbers). Overflow to infinity is not represented; the amplitudes lie between
  0 and 1 and the clock readings are far below the largest double.
\<close>

definition pow2 :: "int \<Rightarrow> rat" where
  "pow2 k = (if 0 \<le> k then 2 ^ nat k else 1 / 2 ^ nat (- k))"

text \<open>For positive \<open>x\<close>, the integer \<open>e\<close> with \<open>2^e \<le> x < 2^(e+1)\<close>.\<close>

definition floor_log2 :: "rat \<Rightarrow> int" where
  "floor_log2 x = (if 1 \<le> x then bitlen \<lfloor>x\<rfloor> - 1 else - bitlen (\<lceil>1 / x\<rceil> - 1))"

definition round_half_even :: "rat \<Rightarrow> int" where
  "round_half_even x =
     (let f = \<lfloor>x\<rfloor>; d = x - of_int f
      in if d < 1 / 2 then f else if 1 / 2 < d then f + 1 else if even f then f else f + 1)"

definition to_double :: "rat \<Rightarrow> rat" where
  "to_double x =
     (if x = 0 then 0
      else let e = max (floor_log2 \<bar>x\<bar>) (- 1022); q = pow2 (e - 52)
           in of_int (round_half_even (x / q)) * q)"

text \<open>\<^verbatim>\<open>a - b\<close> on two doubles.\<close>

definition double_minus :: "rat \<Rightarrow> rat \<Rightarrow> rat" where
  "double_minus a b = to_double (a - b)"

section \<open>Inbound events\<close>

text \<open>
  An event is the object decoded from one message of the data channel. Its fields follow
  the logical shape of the interface: every field may be absent, the identifier and name
  fields hold strings, \<^verbatim>\<open>call\<close>, \<^verbatim>\<open>function\<close> and \<^verbatim>\<open>tool\<close> are objects with one optional
  string member, and \<^verbatim>\<open>arguments\<close> is any JSON value (a string or a structured value).
\<close>

record event =
  ev_type :: "string option"
  ev_call_id :: "string option"
  ev_id :: "string option"
  ev_call :: "string option option"
  ev_name :: "string option"
  ev_function :: "string option option"
  ev_tool :: "string option option"
  ev_delta :: "string option"
  ev_arguments :: "json option"

text \<open>\<^verbatim>\<open>event.type || ""\<close>\<close>

definition type_of :: "event \<Rightarrow> string" where
  "type_of ev = (case ev_type ev of Some t \<Rightarrow> t | None \<Rightarrow> [])"

text \<open>\<^verbatim>\<open>event.call && event.call.id\<close>: an object is truthy, so the member is read whenever
  the object is there.\<close>

definition member_of :: "string option option \<Rightarrow> string option" where
  "member_of obj = (case obj of None \<Rightarrow> None | Some m \<Rightarrow> m)"

definition callId_of :: "event \<Rightarrow> string option" where
  "callId_of ev = or_str (ev_call_id ev) (or_str (ev_id ev) (member_of (ev_call ev)))"

definition name_of :: "event \<Rightarrow> string option" where
  "name_of ev = or_str (ev_name ev) (or_str (member_of (ev_function ev)) (member_of (ev_tool ev)))"

definition delta_of :: "event \<Rightarrow> string option" where
  "delta_of ev =
     or_str (ev_delta ev) (case ev_arguments ev of Some (JStr a) \<Rightarrow> Some a | _ \<Rightarrow> None)"

definition looksLikeToolEvent :: "string \<Rightarrow> bool" where
  "looksLikeToolEvent t = (includes_str t ''function_call'' \<or> includes_str t ''tool_call'')"

definition isFinal :: "string \<Rightarrow> bool" where
  "isFinal t =
     (endsWith t ''.completed'' \<or> endsWith t ''.done'' \<or> endsWith t ''.finished'' \<or>
      t = ''response.function_call.completed'' \<or> t = ''response.tool_call.completed'')"

definition isTalkDelta :: "string \<Rightarrow> bool" where
  "isTalkDelta t =
     (t = ''response.created'' \<or> startsWith t ''response.output_'' \<or> t = ''response.delta'')"

definition isTalkEnd :: "string \<Rightarrow> bool" where
  "isTalkEnd t =
     (t = ''response.completed'' \<or> t = ''response.done'' \<or> t = ''response.stopped'')"

section \<open>The state of the component\<close>

datatype presentation = Entry | Idle | Talking

record completion =
  summary :: json
  reason :: json

text \<open>
  The state cells of \<^verbatim>\<open>App\<close> that the event layer reads or writes, under their source
  names, followed by the part of the browser they act on: the table of armed timeouts
  (handle to deadline, in milliseconds), the set of requested animation frames, the last
  handle given out, and the texts sent on the data channel. \<^verbatim>\<open>toolCallBuffersRef\<close> holds
  the own properties of the store object. Times are the rationals denoted by the doubles
  of the source. The event
  log shown in the debug panel, the countdown, the camera and the audio element are left
  out: no handler below reads them.
\<close>

record app_state =
  isSessionActive :: bool
  dataChannel :: bool
  peerConnection :: bool
  interviewerState :: presentation
  talkingTimeoutRef :: "nat option"
  audioContextRef :: bool
  analyserRef :: bool
  vadRafRef :: "nat option"
  lastAboveThresholdMsRef :: rat
  isSpeakingRef :: bool
  isInterviewCompleted :: bool
  completionSummary :: json
  completionReason :: json
  toolCallBuffersRef :: "string \<rightharpoonup> string"
  pendingCompletion :: "completion option"
  timeouts :: "nat \<rightharpoonup> rat"
  frames :: "nat set"
  last_handle :: nat
  sent :: "string list"

definition TALKING_HOLD_MS :: rat where
  "TALKING_HOLD_MS = 4000"

text \<open>The literals \<^verbatim>\<open>0.04\<close> and \<^verbatim>\<open>0.02\<close> of the source, as the doubles they denote.\<close>

definition VAD_START_THRESHOLD :: rat where
  "VAD_START_THRESHOLD = to_double (4 / 100)"

definition VAD_STOP_THRESHOLD :: rat where
  "VAD_STOP_THRESHOLD = to_double (2 / 100)"

definition VAD_REQUIRED_SILENCE_MS :: rat where
  "VAD_REQUIRED_SILENCE_MS = 300"

text \<open>The values of \<^verbatim>\<open>useState\<close> and \<^verbatim>\<open>useRef\<close> when the component mounts.\<close>

definition initial_state :: app_state where
  "initial_state =
     \<lparr>isSessionActive = False, dataChannel = False, peerConnection = False,
      interviewerState = Idle, talkingTimeoutRef = None,
      audioContextRef = False, analyserRef = False, vadRafRef = None,
      lastAboveThresholdMsRef = 0, isSpeakingRef = False,
      isInterviewCompleted = False, completionSummary = JStr [], completionReason = JStr [],
      toolCallBuffersRef = Map.empty, pendingCompletion = None,
      timeouts = Map.empty, frames = {}, last_handle = 0, sent = []\<rparr>"

subsection \<open>Timers and animation frames\<close>

text \<open>Handles are positive, as the browser gives them, so a stored handle is truthy.\<close>

definition setTimeout :: "rat \<Rightarrow> app_state \<Rightarrow> nat \<times> app_state" where
  "setTimeout deadline s =
     (let h = Suc (last_handle s)
      in (h, s\<lparr>timeouts := (timeouts s)(h \<mapsto> deadline), last_handle := h\<rparr>))"

definition clearTimeout :: "nat \<Rightarrow> app_state \<Rightarrow> app_state" where
  "clearTimeout h s = s\<lparr>timeouts := (timeouts s)(h := None)\<rparr>"

definition requestAnimationFrame :: "app_state \<Rightarrow> nat \<times> app_state" where
  "requestAnimationFrame s =
     (let h = Suc (last_handle s)
      in (h, s\<lparr>frames := insert h (frames s), last_handle := h\<rparr>))"

definition cancelAnimationFrame :: "nat \<Rightarrow> app_state \<Rightarrow> app_state" where
  "cancelAnimationFrame h s = s\<lparr>frames := frames s - {h}\<rparr>"

text \<open>\<^verbatim>\<open>if (talkingTimeoutRef.current) clearTimeout(talkingTimeoutRef.current)\<close>\<close>

definition clear_talking_timeout :: "app_state \<Rightarrow> app_state" where
  "clear_talking_timeout s =
     (case talkingTimeoutRef s of
        Some h \<Rightarrow> if h \<noteq> 0 then clearTimeout h s else s
      | None \<Rightarrow> s)"

section \<open>The handlers\<close>

subsection \<open>Sending on the data channel\<close>

text \<open>
  \<^verbatim>\<open>sendClientEvent(message)\<close>: when the channel of the closure is there, the message gets
  an \<^verbatim>\<open>event_id\<close> unless it has a truthy one, and its encoding is sent. The identifier
  comes from \<^verbatim>\<open>crypto.randomUUID()\<close> and is an input here. Without a channel nothing is
  sent. \<open>dc\<close> says whether the channel of the closure is there.
\<close>

definition sendClientEvent ::
  "json_api \<Rightarrow> bool \<Rightarrow> string \<Rightarrow> (string \<times> json) list \<Rightarrow> app_state \<Rightarrow> app_state" where
  "sendClientEvent J dc uuid message s =
     (if dc then
        let message' =
              (if truthy (map_of message ''event_id'') then message
               else AList.update ''event_id'' (JStr uuid) message)
        in s\<lparr>sent := sent s @ [JSON_stringify J (JObj message')]\<rparr>
      else s)"

subsection \<open>Tool calls: buffering, finality, routing\<close>

record tool_invocation =
  inv_name :: string
  inv_call_id :: string
  inv_arguments :: json

text \<open>
  What the \<^verbatim>\<open>try\<close> block of the message listener leaves behind: the error it threw, if
  any (the \<^verbatim>\<open>catch\<close> swallows it), the invocation it rebuilt at a terminal event (name,
  call identifier and the decoded arguments \<^verbatim>\<open>parsed\<close>), and the state it reached.
\<close>

record outcome =
  thrown :: "js_error option"
  invocation :: "tool_invocation option"
  after :: app_state

text \<open>
  The store is a plain object created by \<^verbatim>\<open>useRef({})\<close>, so a lookup that finds no own
  property goes on to \<^verbatim>\<open>Object.prototype\<close>. For the names below it finds a member there:
  a function, or for \<^verbatim>\<open>__proto__\<close> the prototype object itself. Such a member is truthy,
  and where the handler uses it as text (\<^verbatim>\<open>prev + delta\<close>, \<^verbatim>\<open>JSON.parse(rawArgs)\<close>) it is
  converted to a string: \<^verbatim>\<open>[object Object]\<close> for the prototype object and the source
  text of a native function otherwise, given here as V8 prints it (other engines differ
  in white space).
\<close>

definition Object_prototype_keys :: "string list" where
  "Object_prototype_keys =
     [''constructor'', ''__defineGetter__'', ''__defineSetter__'', ''hasOwnProperty'',
      ''__lookupGetter__'', ''__lookupSetter__'', ''isPrototypeOf'', ''propertyIsEnumerable'',
      ''toString'', ''valueOf'', ''__proto__'', ''toLocaleString'']"

definition inherited_text :: "string \<Rightarrow> string" where
  "inherited_text k =
     (if k = ''__proto__'' then ''[object Object]''
      else ''function '' @ (if k = ''constructor'' then ''Object'' else k) @ ''() { [native code] }'')"

text \<open>\<^verbatim>\<open>toolCallBuffersRef.current[callId]\<close>, as the text the handler makes of it; \<open>None\<close>
  is \<^verbatim>\<open>undefined\<close>.\<close>

definition buffer_get :: "app_state \<Rightarrow> string \<Rightarrow> string option" where
  "buffer_get s callId =
     (case toolCallBuffersRef s callId of
        Some b \<Rightarrow> Some b
      | None \<Rightarrow>
          if callId \<in> set Object_prototype_keys then Some (inherited_text callId) else None)"

text \<open>
  \<^verbatim>\<open>const prev = toolCallBuffersRef.current[callId] || ""; ...[callId] = prev + delta\<close>.
  Assigning a string to \<^verbatim>\<open>__proto__\<close> runs the setter of \<^verbatim>\<open>Object.prototype\<close>, which
  ignores it: nothing is stored. Any other name gets an own property.
\<close>

definition append_delta :: "string \<Rightarrow> string \<Rightarrow> app_state \<Rightarrow> app_state" where
  "append_delta callId delta s =
     (let prev = (case buffer_get s callId of Some b \<Rightarrow> b | None \<Rightarrow> [])
      in if callId = ''__proto__'' then s
         else s\<lparr>toolCallBuffersRef := (toolCallBuffersRef s)(callId \<mapsto> prev @ delta)\<rparr>)"

text \<open>\<^verbatim>\<open>delete toolCallBuffersRef.current[callId]\<close>: removes an own property.\<close>

definition delete_buffer :: "string \<Rightarrow> app_state \<Rightarrow> app_state" where
  "delete_buffer callId s = s\<lparr>toolCallBuffersRef := (toolCallBuffersRef s)(callId := None)\<rparr>"

text \<open>The raw text at a terminal event: the buffer, or the encoding of a structured
  \<^verbatim>\<open>arguments\<close> when the buffer is missing or empty.\<close>

definition rawArgs_of :: "json_api \<Rightarrow> string option \<Rightarrow> json option \<Rightarrow> string option" where
  "rawArgs_of J buffered args =
     (if \<not> truthy_str buffered \<and> typeof_object args
      then (case args of Some a \<Rightarrow> Some (JSON_stringify J a) | None \<Rightarrow> buffered)
      else buffered)"

text \<open>\<^verbatim>\<open>let parsed = {}; if (rawArgs) { try { parsed = JSON.parse(rawArgs); } catch {} }\<close>\<close>

definition parsed_of :: "json_api \<Rightarrow> string option \<Rightarrow> json" where
  "parsed_of J rawArgs =
     (case rawArgs of
        None \<Rightarrow> JObj []
      | Some r \<Rightarrow>
          if r = [] then JObj []
          else (case JSON_parse J r of Some v \<Rightarrow> v | None \<Rightarrow> JObj []))"

definition acknowledgment :: "json_api \<Rightarrow> string \<Rightarrow> (string \<times> json) list" where
  "acknowledgment J callId =
     [(''type'', JStr ''tool.output''),
      (''call_id'', JStr callId),
      (''output'', JStr (JSON_stringify J (JObj [(''acknowledged'', JBool True)])))]"

text \<open>
  The branch \<^verbatim>\<open>if (name === "complete_interview")\<close> and the cleanup after it. Reading
  \<^verbatim>\<open>parsed.summary\<close> throws when \<^verbatim>\<open>parsed\<close> is \<^verbatim>\<open>null\<close>; control then leaves the
  \<^verbatim>\<open>try\<close> block before any setter, the acknowledgment and the \<^verbatim>\<open>delete\<close>. The listener
  is attached under \<^verbatim>\<open>if (dataChannel)\<close>, in the render whose \<^verbatim>\<open>sendClientEvent\<close> it
  calls, so the channel of that closure is there.
\<close>

definition finalize ::
  "json_api \<Rightarrow> string \<Rightarrow> string \<Rightarrow> string \<Rightarrow> event \<Rightarrow> app_state \<Rightarrow> outcome" where
  "finalize J uuid callId name ev s =
     (let rawArgs = rawArgs_of J (buffer_get s callId) (ev_arguments ev);
          parsed = parsed_of J rawArgs;
          inv = \<lparr>inv_name = name, inv_call_id = callId, inv_arguments = parsed\<rparr>
      in if name = ''complete_interview'' then
           (case get_prop parsed ''summary'' of
              Inl e \<Rightarrow> \<lparr>thrown = Some e, invocation = Some inv, after = s\<rparr>
            | Inr sm \<Rightarrow>
                (case get_prop parsed ''reason'' of
                   Inl e \<Rightarrow> \<lparr>thrown = Some e, invocation = Some inv, after = s\<rparr>
                 | Inr rs \<Rightarrow>
                     let summary = or_empty sm;
                         reason = or_empty rs;
                         s1 = s\<lparr>completionSummary := summary,
                                completionReason := reason,
                                pendingCompletion := Some \<lparr>summary = summary, reason = reason\<rparr>\<rparr>;
                         s2 = sendClientEvent J True uuid (acknowledgment J callId) s1
                     in \<lparr>thrown = None, invocation = Some inv,
                         after = delete_buffer callId s2\<rparr>))
         else \<lparr>thrown = None, invocation = Some inv, after = delete_buffer callId s\<rparr>)"

definition tool_block :: "json_api \<Rightarrow> string \<Rightarrow> event \<Rightarrow> app_state \<Rightarrow> outcome" where
  "tool_block J uuid ev s =
     (let skip = \<lparr>thrown = None, invocation = None, after = s\<rparr>
      in if looksLikeToolEvent (type_of ev) then
           (case callId_of ev of
              None \<Rightarrow> skip
            | Some callId \<Rightarrow>
                (case name_of ev of
                   None \<Rightarrow> skip
                 | Some name \<Rightarrow>
                     if callId \<noteq> [] \<and> name \<noteq> [] then
                       let s1 = (if truthy_str (delta_of ev)
                                 then (case delta_of ev of
                                         Some delta \<Rightarrow> append_delta callId delta s
                                       | None \<Rightarrow> s)
                                 else s)
                       in if isFinal (type_of ev) then finalize J uuid callId name ev s1
                          else \<lparr>thrown = None, invocation = None, after = s1\<rparr>
                     else skip))
         else skip)"

subsection \<open>Driver A: talk signals of the channel\<close>

definition talk_block :: "rat \<Rightarrow> event \<Rightarrow> app_state \<Rightarrow> app_state" where
  "talk_block now ev s =
     (let s1 =
            (if isTalkDelta (type_of ev) then
               let a = s\<lparr>interviewerState :=
                          (if interviewerState s \<noteq> Talking then Talking else interviewerState s)\<rparr>;
                   b = clear_talking_timeout a;
                   (h, c) = setTimeout (now + TALKING_HOLD_MS) b
               in c\<lparr>talkingTimeoutRef := Some h\<rparr>
             else s)
      in if isTalkEnd (type_of ev)
         then (clear_talking_timeout s1)\<lparr>interviewerState := Idle\<rparr>
         else s1)"

text \<open>The callback armed by \<^verbatim>\<open>setTimeout\<close> in the talk-start branch, run by the browser
  once the deadline has passed; a cleared handle never runs.\<close>

definition timeout_fires :: "nat \<Rightarrow> rat \<Rightarrow> app_state \<Rightarrow> app_state" where
  "timeout_fires h now s =
     (case timeouts s h of
        None \<Rightarrow> s
      | Some deadline \<Rightarrow>
          if deadline \<le> now
          then s\<lparr>timeouts := (timeouts s)(h := None), interviewerState := Idle\<rparr>
          else s)"

text \<open>The message listener: the tool block inside \<^verbatim>\<open>try { ... } catch {}\<close>, then the talk
  signals. \<open>now\<close> is the time at which the message is handled.\<close>

definition on_message :: "json_api \<Rightarrow> string \<Rightarrow> rat \<Rightarrow> event \<Rightarrow> app_state \<Rightarrow> app_state" where
  "on_message J uuid now ev s = talk_block now ev (after (tool_block J uuid ev s))"

subsection \<open>Driver B: voice activity on the remote audio\<close>

text \<open>
  One run of \<^verbatim>\<open>tick\<close>. The root mean square of the frame and the reading of
  \<^verbatim>\<open>performance.now()\<close>, both doubles, are its inputs; the comparisons are exact and the
  subtraction is the subtraction of doubles.
\<close>

definition tick :: "rat \<Rightarrow> rat \<Rightarrow> app_state \<Rightarrow> app_state" where
  "tick rms now s =
     (if \<not> analyserRef s then s
      else
        let s1 =
              (if rms \<ge> VAD_START_THRESHOLD then
                 let a = s\<lparr>lastAboveThresholdMsRef := now\<rparr>
                 in if \<not> isSpeakingRef a
                    then a\<lparr>isSpeakingRef := True, interviewerState := Talking\<rparr>
                    else a
               else if isSpeakingRef s \<and> rms < VAD_STOP_THRESHOLD \<and>
                       double_minus now (lastAboveThresholdMsRef s) > VAD_REQUIRED_SILENCE_MS
                 then s\<lparr>isSpeakingRef := False, interviewerState := Idle\<rparr>
               else s);
            (h, s2) = requestAnimationFrame s1
        in s2\<lparr>vadRafRef := Some h\<rparr>)"

text \<open>The browser runs a requested frame once; a cancelled one never runs.\<close>

definition frame_fires :: "nat \<Rightarrow> rat \<Rightarrow> rat \<Rightarrow> app_state \<Rightarrow> app_state" where
  "frame_fires h rms now s =
     (if h \<in> frames s then tick rms now (s\<lparr>frames := frames s - {h}\<rparr>) else s)"

text \<open>\<^verbatim>\<open>setupVoiceActivityDetection\<close>, taken as one step (resuming a suspended audio
  context is not modelled).\<close>

definition setupVoiceActivityDetection :: "app_state \<Rightarrow> app_state" where
  "setupVoiceActivityDetection s =
     (let s1 = s\<lparr>audioContextRef := True, analyserRef := True\<rparr>;
          s2 = (case vadRafRef s1 of
                  Some h \<Rightarrow> if h \<noteq> 0 then cancelAnimationFrame h s1 else s1
                | None \<Rightarrow> s1);
          (h, s3) = requestAnimationFrame s2
      in s3\<lparr>vadRafRef := Some h\<rparr>)"

subsection \<open>Teardown\<close>

text \<open>
  \<^verbatim>\<open>stopSession\<close>. Without a peer connection \<^verbatim>\<open>peerConnection.current.getSenders()\<close>
  throws and nothing below it runs. Otherwise the cells are reset in the order of the
  source; the function touches neither \<^verbatim>\<open>toolCallBuffersRef\<close> nor
  \<^verbatim>\<open>talkingTimeoutRef\<close>.
\<close>

definition stopSession :: "app_state \<Rightarrow> js_error option \<times> app_state" where
  "stopSession s =
     (if \<not> peerConnection s then (Some TypeError, s)
      else
        let s1 = (case vadRafRef s of
                    Some h \<Rightarrow> if h \<noteq> 0 then (cancelAnimationFrame h s)\<lparr>vadRafRef := None\<rparr> else s
                  | None \<Rightarrow> s);
            s2 = (if audioContextRef s1
                  then s1\<lparr>audioContextRef := False, analyserRef := False\<rparr> else s1)
        in (None,
            s2\<lparr>isSessionActive := False, dataChannel := False, peerConnection := False,
               interviewerState := Idle, isInterviewCompleted := False,
               completionSummary := JStr [], completionReason := JStr [],
               pendingCompletion := None\<rparr>))"

subsection \<open>The text-message control\<close>

text \<open>\<^verbatim>\<open>setInterviewerState("idle"); sendTextMessage(message)\<close>, with the channel of the
  current render.\<close>

definition sendTextMessage :: "json_api \<Rightarrow> string \<Rightarrow> string \<Rightarrow> string \<Rightarrow> app_state \<Rightarrow> app_state" where
  "sendTextMessage J uuid1 uuid2 message s =
     (let event =
            [(''type'', JStr ''conversation.item.create''),
             (''item'', JObj [(''type'', JStr ''message''),
                              (''role'', JStr ''user''),
                              (''content'', JArr [JObj [(''type'', JStr ''input_text''),
                                                        (''text'', JStr message)]])])];
          s1 = sendClientEvent J (dataChannel s) uuid1 event s
      in sendClientEvent J (dataChannel s) uuid2 [(''type'', JStr ''response.create'')] s1)"

definition user_text :: "json_api \<Rightarrow> string \<Rightarrow> string \<Rightarrow> string \<Rightarrow> app_state \<Rightarrow> app_state" where
  "user_text J uuid1 uuid2 message s =
     sendTextMessage J uuid1 uuid2 message (s\<lparr>interviewerState := Idle\<rparr>)"

subsection \<open>Deferred completion\<close>

text \<open>
  The effect on \<^verbatim>\<open>[pendingCompletion, interviewerState]\<close>. React runs it after the render
  that follows a handler; run again on its own result it changes nothing.
\<close>

definition completion_effect :: "app_state \<Rightarrow> app_state" where
  "completion_effect s =
     (if pendingCompletion s \<noteq> None \<and> interviewerState s = Idle
      then s\<lparr>isInterviewCompleted := True, pendingCompletion := None\<rparr>
      else s)"

section \<open>Executions\<close>

text \<open>
  The scheduler is single-threaded: an execution is a sequence of callbacks, each run to
  its end, each followed by a render and the effect. The callbacks are an inbound message,
  the expiry of a timeout, an animation frame, the arrival of the remote audio track, the
  text-message control and the teardown. Opening the channel (which shows the entry
  animation and then the greeting) belongs to session establishment and is not part of
  the executions.
\<close>

datatype action =
    Message string rat event
  | Timeout nat rat
  | Frame nat rat rat
  | Track
  | UserText string string string
  | Stop

fun handler :: "json_api \<Rightarrow> action \<Rightarrow> app_state \<Rightarrow> app_state" where
  "handler J (Message uuid now ev) s = on_message J uuid now ev s"
| "handler J (Timeout h now) s = timeout_fires h now s"
| "handler J (Frame h rms now) s = frame_fires h rms now s"
| "handler J Track s = setupVoiceActivityDetection s"
| "handler J (UserText uuid1 uuid2 message) s = user_text J uuid1 uuid2 message s"
| "handler J Stop s = snd (stopSession s)"

definition step :: "json_api \<Rightarrow> action \<Rightarrow> app_state \<Rightarrow> app_state" where
  "step J a s = completion_effect (handler J a s)"

fun exec :: "json_api \<Rightarrow> action list \<Rightarrow> app_state \<Rightarrow> app_state" where
  "exec J [] s = s"
| "exec J (a # as) s = exec J as (step J a s)"

text \<open>The states an execution passes through, one after each callback.\<close>

fun trace :: "json_api \<Rightarrow> action list \<Rightarrow> app_state \<Rightarrow> app_state list" where
  "trace J [] s = []"
| "trace J (a # as) s = step J a s # trace J as (step J a s)"

section \<open>Notions used in the statements\<close>

text \<open>An event of the tool-call stream whose call identifier resolves to \<open>c\<close> and whose
  tool name resolves to \<open>n\<close>, both non-empty: the events the tool block does not drop.\<close>

definition tool_event_for :: "string \<Rightarrow> string \<Rightarrow> event \<Rightarrow> bool" where
  "tool_event_for c n ev \<longleftrightarrow>
     looksLikeToolEvent (type_of ev) \<and> callId_of ev = Some c \<and> c \<noteq> [] \<and>
     name_of ev = Some n \<and> n \<noteq> []"


definition terminal_for :: "string \<Rightarrow> string \<Rightarrow> event \<Rightarrow> bool" where
  "terminal_for c n ev \<longleftrightarrow> tool_event_for c n ev \<and> isFinal (type_of ev)"

text \<open>The text an event carries, empty when it carries none.\<close>

definition text_of :: "event \<Rightarrow> string" where
  "text_of ev = (case delta_of ev of Some d \<Rightarrow> d | None \<Rightarrow> [])"

text \<open>The text a lookup in the store gives for a call identifier, empty when it gives
  \<^verbatim>\<open>undefined\<close>.\<close>

definition buffered :: "app_state \<Rightarrow> string \<Rightarrow> string" where
  "buffered s c = (case buffer_get s c of Some b \<Rightarrow> b | None \<Rightarrow> [])"

text \<open>Structured decoding of a text, with the empty record where the text does not decode.\<close>

definition decoded :: "json_api \<Rightarrow> string \<Rightarrow> json" where
  "decoded J txt = (case JSON_parse J txt of Some v \<Rightarrow> v | None \<Rightarrow> JObj [])"

text \<open>Messages arriving one after the other, each with the identifier drawn for a possible
  acknowledgment and the time of its arrival.\<close>

definition messages :: "(string \<times> rat \<times> event) list \<Rightarrow> action list" where
  "messages ms = map (\<lambda>(uuid, now, ev). Message uuid now ev) ms"

text \<open>Every armed fallback timeout is the one \<^verbatim>\<open>talkingTimeoutRef\<close> holds.\<close>

definition timers_wf :: "app_state \<Rightarrow> bool" where
  "timers_wf s \<longleftrightarrow>
     (case talkingTimeoutRef s of
        None \<Rightarrow> timeouts s = Map.empty
      | Some h \<Rightarrow> h \<noteq> 0 \<and> dom (timeouts s) \<subseteq> {h})"

text \<open>A run of the sampler alone over samples \<open>(rms, now)\<close>.\<close>

definition vad_run :: "(rat \<times> rat) list \<Rightarrow> app_state \<Rightarrow> app_state" where
  "vad_run samples s = fold (\<lambda>(rms, now). tick rms now) samples s"

text \<open>The time of the last sample at or above the start threshold, \<open>t0\<close> if there is none.\<close>

definition last_above :: "(rat \<times> rat) list \<Rightarrow> rat \<Rightarrow> rat" where
  "last_above samples t0 =
     fold (\<lambda>(rms, now) t. if rms \<ge> VAD_START_THRESHOLD then now else t) samples t0"

text \<open>
  The reading of the hysteresis property that counts silence as time spent continuously
  below the stop threshold: the span, in milliseconds, of the samples below the stop
  threshold that end the sequence.
\<close>

definition continuous_silence_ms :: "(rat \<times> rat) list \<Rightarrow> rat" where
  "continuous_silence_ms samples =
     (case takeWhile (\<lambda>(rms, now). rms < VAD_STOP_THRESHOLD) (rev samples) of
        [] \<Rightarrow> 0
      | q # qs \<Rightarrow> snd q - snd (last (q # qs)))"

subsection \<open>Events and states of the examples\<close>

definition blank_event :: event where
  "blank_event =
     \<lparr>ev_type = None, ev_call_id = None, ev_id = None, ev_call = None, ev_name = None,
      ev_function = None, ev_tool = None, ev_delta = None, ev_arguments = None\<rparr>"

definition delta_event :: "string \<Rightarrow> string \<Rightarrow> string \<Rightarrow> event" where
  "delta_event c n d =
     blank_event\<lparr>ev_type := Some ''response.function_call_arguments.delta'',
                 ev_call_id := Some c, ev_name := Some n, ev_delta := Some d\<rparr>"

definition done_event :: "string \<Rightarrow> string \<Rightarrow> event" where
  "done_event c n =
     blank_event\<lparr>ev_type := Some ''response.function_call_arguments.done'',
                 ev_call_id := Some c, ev_name := Some n\<rparr>"

definition typed_event :: "string \<Rightarrow> event" where
  "typed_event t = blank_event\<lparr>ev_type := Some t\<rparr>"

text \<open>A session in progress: channel and peer connection are there.\<close>

definition session_state :: app_state where
  "session_state =
     initial_state\<lparr>isSessionActive := True, dataChannel := True, peerConnection := True\<rparr>"

section \<open>What each handler leaves unchanged\<close>

lemma append_delta_keeps [simp]:
  "interviewerState (append_delta c d s) = interviewerState s"
  "talkingTimeoutRef (append_delta c d s) = talkingTimeoutRef s"
  "timeouts (append_delta c d s) = timeouts s"
  "last_handle (append_delta c d s) = last_handle s"
  "frames (append_delta c d s) = frames s"
  "sent (append_delta c d s) = sent s"
  "pendingCompletion (append_delta c d s) = pendingCompletion s"
  "completionSummary (append_delta c d s) = completionSummary s"
  "completionReason (append_delta c d s) = completionReason s"
  "isInterviewCompleted (append_delta c d s) = isInterviewCompleted s"
  by (simp_all add: append_delta_def Let_def)

lemma delete_buffer_keeps [simp]:
  "interviewerState (delete_buffer c s) = interviewerState s"
  "talkingTimeoutRef (delete_buffer c s) = talkingTimeoutRef s"
  "timeouts (delete_buffer c s) = timeouts s"
  "last_handle (delete_buffer c s) = last_handle s"
  "frames (delete_buffer c s) = frames s"
  "sent (delete_buffer c s) = sent s"
  "pendingCompletion (delete_buffer c s) = pendingCompletion s"
  "completionSummary (delete_buffer c s) = completionSummary s"
  "completionReason (delete_buffer c s) = completionReason s"
  "isInterviewCompleted (delete_buffer c s) = isInterviewCompleted s"
  by (simp_all add: delete_buffer_def)

lemma sendClientEvent_keeps [simp]:
  "interviewerState (sendClientEvent J dc u m s) = interviewerState s"
  "talkingTimeoutRef (sendClientEvent J dc u m s) = talkingTimeoutRef s"
  "timeouts (sendClientEvent J dc u m s) = timeouts s"
  "last_handle (sendClientEvent J dc u m s) = last_handle s"
  "frames (sendClientEvent J dc u m s) = frames s"
  "pendingCompletion (sendClientEvent J dc u m s) = pendingCompletion s"
  "completionSummary (sendClientEvent J dc u m s) = completionSummary s"
  "completionReason (sendClientEvent J dc u m s) = completionReason s"
  "isInterviewCompleted (sendClientEvent J dc u m s) = isInterviewCompleted s"
  by (simp_all add: sendClientEvent_def Let_def)

lemma finalize_presentation [simp]:
  "interviewerState (after (finalize J u c n ev s)) = interviewerState s"
  "talkingTimeoutRef (after (finalize J u c n ev s)) = talkingTimeoutRef s"
  "timeouts (after (finalize J u c n ev s)) = timeouts s"
  "last_handle (after (finalize J u c n ev s)) = last_handle s"
  "frames (after (finalize J u c n ev s)) = frames s"
  "isInterviewCompleted (after (finalize J u c n ev s)) = isInterviewCompleted s"
  by (simp_all add: finalize_def Let_def split: sum.splits)

lemma finalize_pending:
  "pendingCompletion s \<noteq> None \<Longrightarrow> pendingCompletion (after (finalize J u c n ev s)) \<noteq> None"
  by (simp add: finalize_def Let_def split: sum.splits)

lemma tool_block_presentation [simp]:
  "interviewerState (after (tool_block J u ev s)) = interviewerState s"
  "talkingTimeoutRef (after (tool_block J u ev s)) = talkingTimeoutRef s"
  "timeouts (after (tool_block J u ev s)) = timeouts s"
  "last_handle (after (tool_block J u ev s)) = last_handle s"
  "frames (after (tool_block J u ev s)) = frames s"
  "isInterviewCompleted (after (tool_block J u ev s)) = isInterviewCompleted s"
  by (simp_all add: tool_block_def Let_def split: option.splits)

lemma tool_block_pending:
  assumes p: "pendingCompletion s \<noteq> None"
  shows "pendingCompletion (after (tool_block J u ev s)) \<noteq> None"
proof -
  have f: "\<exists>y. pendingCompletion (after (finalize J u c n ev t)) = Some y"
    if "pendingCompletion t \<noteq> None" for c n t
    using finalize_pending[OF that, of J u c n ev] by auto
  from p obtain y where y: "pendingCompletion s = Some y" by auto
  show ?thesis
    using y by (auto simp: tool_block_def Let_def f split: option.splits)
qed

lemma talk_block_keeps [simp]:
  "pendingCompletion (talk_block now ev s) = pendingCompletion s"
  "isInterviewCompleted (talk_block now ev s) = isInterviewCompleted s"
  "toolCallBuffersRef (talk_block now ev s) = toolCallBuffersRef s"
  "sent (talk_block now ev s) = sent s"
  "completionSummary (talk_block now ev s) = completionSummary s"
  "completionReason (talk_block now ev s) = completionReason s"
  by (simp_all add: talk_block_def clear_talking_timeout_def clearTimeout_def setTimeout_def Let_def
       split: option.splits)

lemma completion_effect_keeps [simp]:
  "toolCallBuffersRef (completion_effect s) = toolCallBuffersRef s"
  "interviewerState (completion_effect s) = interviewerState s"
  "sent (completion_effect s) = sent s"
  "completionSummary (completion_effect s) = completionSummary s"
  "completionReason (completion_effect s) = completionReason s"
  by (simp_all add: completion_effect_def)

section \<open>Buffers\<close>

lemma truthy_str_iff: "truthy_str x \<longleftrightarrow> (\<exists>y. x = Some y \<and> y \<noteq> [])"
  by (cases x) auto


text \<open>A call identifier that names no member of \<^verbatim>\<open>Object.prototype\<close> is looked up among
  the own properties only.\<close>

lemma buffer_get_plain:
  "c \<notin> set Object_prototype_keys \<Longrightarrow> buffer_get s c = toolCallBuffersRef s c"
  by (simp add: buffer_get_def split: option.splits)

lemma plain_not_proto: "c \<notin> set Object_prototype_keys \<Longrightarrow> c \<noteq> ''__proto__''"
  by (auto simp: Object_prototype_keys_def)


lemma append_delta_plain:
  "c \<notin> set Object_prototype_keys \<Longrightarrow>
   toolCallBuffersRef (append_delta c d s) c = Some (buffered s c @ d)"
  using plain_not_proto[of c] by (simp add: append_delta_def buffered_def Let_def)





lemma terminal_invocation:
  assumes "terminal_for c n ev" and plain: "c \<notin> set Object_prototype_keys"
  shows "invocation (tool_block J u ev s) =
           Some \<lparr>inv_name = n, inv_call_id = c,
                 inv_arguments =
                   parsed_of J (rawArgs_of J
                     (if text_of ev = [] then toolCallBuffersRef s c else Some (buffered s c @ text_of ev))
                     (ev_arguments ev))\<rparr>"
  using assms(1)
  by (auto simp: terminal_for_def tool_event_for_def tool_block_def finalize_def
        buffer_get_plain[OF plain] append_delta_plain[OF plain] text_of_def Let_def
      split: option.splits sum.splits)


lemma parsed_of_text: "r \<noteq> [] \<Longrightarrow> parsed_of J (Some r) = decoded J r"
  by (simp add: parsed_of_def decoded_def)

lemma rawArgs_of_text: "r \<noteq> [] \<Longrightarrow> rawArgs_of J (Some r) a = Some r"
  by (simp add: rawArgs_of_def)

lemma buffered_Some: "buffered s c \<noteq> [] \<Longrightarrow> buffer_get s c = Some (buffered s c)"
  by (simp add: buffered_def split: option.splits)




section \<open>Finalizing a call\<close>

lemma get_prop_no_throw: "p \<noteq> JNull \<Longrightarrow> \<exists>x. get_prop p k = Inr x"
  by (cases p) simp_all

lemma finalize_thrown:
  "thrown (finalize J u c n ev s) =
     (if n = ''complete_interview'' \<and>
         parsed_of J (rawArgs_of J (buffer_get s c) (ev_arguments ev)) = JNull
      then Some TypeError else None)"
proof (cases "parsed_of J (rawArgs_of J (buffer_get s c) (ev_arguments ev)) = JNull")
  case True
  then show ?thesis by (simp add: finalize_def Let_def)
next
  case False
  from get_prop_no_throw[OF False, of "''summary''"] get_prop_no_throw[OF False, of "''reason''"]
  obtain x y where
    "get_prop (parsed_of J (rawArgs_of J (buffer_get s c) (ev_arguments ev))) ''summary'' = Inr x"
    "get_prop (parsed_of J (rawArgs_of J (buffer_get s c) (ev_arguments ev))) ''reason'' = Inr y"
    by blast
  with False show ?thesis by (simp add: finalize_def Let_def)
qed

lemma finalize_invocation:
  "invocation (finalize J u c n ev s) =
     Some \<lparr>inv_name = n, inv_call_id = c,
           inv_arguments = parsed_of J (rawArgs_of J (buffer_get s c) (ev_arguments ev))\<rparr>"
  by (simp add: finalize_def Let_def split: sum.splits)

text \<open>At a terminal event the tool block accumulates the event's own text and finalizes.\<close>

lemma terminal_tool_block:
  assumes "terminal_for c n ev"
  shows "tool_block J u ev s =
           finalize J u c n ev (if text_of ev = [] then s else append_delta c (text_of ev) s)"
  using assms
  by (auto simp: terminal_for_def tool_event_for_def tool_block_def text_of_def Let_def truthy_str_iff
      split: option.splits)

lemma terminal_thrown:
  assumes "terminal_for c n ev"
      and "invocation (tool_block J u ev s) = Some iv"
  shows "thrown (tool_block J u ev s) =
           (if n = ''complete_interview'' \<and> inv_arguments iv = JNull then Some TypeError else None)"
  using assms(2) unfolding terminal_tool_block[OF assms(1)] finalize_thrown finalize_invocation
  by auto

text \<open>
  Degradation where it works. A terminal event for \<open>c\<close> arrives, \<open>c\<close> naming no member
  of \<^verbatim>\<open>Object.prototype\<close>. Either nothing was accumulated for \<open>c\<close>, the event carries no
  text and the type of its \<^verbatim>\<open>arguments\<close> is not \<^verbatim>\<open>object\<close>; or text was accumulated and
  does not decode. In both cases the arguments of the invocation are the empty record and
  the \<^verbatim>\<open>try\<close> block throws nothing.
\<close>

lemma degraded_arguments:
  assumes te: "terminal_for c n te"
      and plain: "c \<notin> set Object_prototype_keys"
      and deg: "(\<not> truthy_str (toolCallBuffersRef s c) \<and> text_of te = [] \<and>
                 \<not> typeof_object (ev_arguments te)) \<or>
                (buffered s c @ text_of te \<noteq> [] \<and>
                 JSON_parse J (buffered s c @ text_of te) = None)"
  shows "invocation (tool_block J u te s) =
           Some \<lparr>inv_name = n, inv_call_id = c, inv_arguments = JObj []\<rparr> \<and>
         thrown (tool_block J u te s) = None"
proof -
  have inv: "invocation (tool_block J u te s) =
           Some \<lparr>inv_name = n, inv_call_id = c, inv_arguments = JObj []\<rparr>"
    using deg
  proof
    assume a: "\<not> truthy_str (toolCallBuffersRef s c) \<and> text_of te = [] \<and>
                 \<not> typeof_object (ev_arguments te)"
    then have "rawArgs_of J (toolCallBuffersRef s c) (ev_arguments te) = toolCallBuffersRef s c"
      by (simp add: rawArgs_of_def)
    moreover from a have "parsed_of J (toolCallBuffersRef s c) = JObj []"
      by (cases "toolCallBuffersRef s c") (simp_all add: parsed_of_def)
    ultimately show ?thesis
      using terminal_invocation[OF te plain, of J u s] a by simp
  next
    assume b: "buffered s c @ text_of te \<noteq> [] \<and>
                 JSON_parse J (buffered s c @ text_of te) = None"
    show ?thesis
    proof (cases "text_of te = []")
      case True
      with b have "toolCallBuffersRef s c = Some (buffered s c)" "buffered s c \<noteq> []"
        using buffered_Some[of s c] by (simp_all add: buffer_get_plain[OF plain])
      then show ?thesis
        using terminal_invocation[OF te plain, of J u s] True b
        by (simp add: rawArgs_of_text parsed_of_text decoded_def)
    next
      case False
      then show ?thesis
        using terminal_invocation[OF te plain, of J u s] b
        by (simp add: rawArgs_of_text parsed_of_text decoded_def)
    qed
  qed
  then show ?thesis
    using terminal_thrown[OF te, of J u s] by simp
qed

lemma degraded_arguments_example:
  \<open>invocation
     (tool_block ecma ''e2'' (done_event ''c1'' ''complete_interview'')
        (exec ecma (messages [(''e1'', 0, delta_event ''c1'' ''complete_interview'' ''{"sum'')])
           session_state)) =
     Some \<lparr>inv_name = ''complete_interview'', inv_call_id = ''c1'', inv_arguments = JObj []\<rparr> \<and>
   thrown
     (tool_block ecma ''e2'' (done_event ''c1'' ''complete_interview'')
        (exec ecma (messages [(''e1'', 0, delta_event ''c1'' ''complete_interview'' ''{"sum'')])
           session_state)) = None\<close>
proof -
  let ?s = \<open>exec ecma (messages [(''e1'', 0, delta_event ''c1'' ''complete_interview'' ''{"sum'')])
           session_state\<close>
  let ?te = "done_event ''c1'' ''complete_interview''"
  have h1: "terminal_for ''c1'' ''complete_interview'' ?te" by code_simp
  have h0: "''c1'' \<notin> set Object_prototype_keys" by code_simp
  have h2: "buffered ?s ''c1'' @ text_of ?te \<noteq> [] \<and>
            JSON_parse ecma (buffered ?s ''c1'' @ text_of ?te) = None" by code_simp
  show ?thesis
    using degraded_arguments[OF h1 h0 disjI2[OF h2], of "''e2''"] by simp
qed

text \<open>
  C8 (accepted degradation): the code at the input where it fails. A terminal event for
  \<^verbatim>\<open>c1\<close> arrives, never preceded by a fragment, with \<^verbatim>\<open>arguments: null\<close>: no structured
  value. The test \<^verbatim>\<open>typeof event.arguments === "object"\<close> lets \<^verbatim>\<open>null\<close> through, the
  substitute text is \<^verbatim>\<open>null\<close> and decodes to \<^verbatim>\<open>null\<close>. The arguments of the invocation are
  \<^verbatim>\<open>null\<close>, not the empty record; for \<^verbatim>\<open>complete_interview\<close> reading \<^verbatim>\<open>parsed.summary\<close>
  throws a TypeError inside the \<^verbatim>\<open>try\<close> block, nothing is acknowledged and no record
  becomes pending.
\<close>

theorem null_arguments_not_degraded:
  "invocation
     (tool_block ecma ''e1''
        ((done_event ''c1'' ''complete_interview'')\<lparr>ev_arguments := Some JNull\<rparr>) session_state) =
     Some \<lparr>inv_name = ''complete_interview'', inv_call_id = ''c1'', inv_arguments = JNull\<rparr> \<and>
   thrown
     (tool_block ecma ''e1''
        ((done_event ''c1'' ''complete_interview'')\<lparr>ev_arguments := Some JNull\<rparr>) session_state) =
     Some TypeError \<and>
   sent
     (on_message ecma ''e1'' 0
        ((done_event ''c1'' ''complete_interview'')\<lparr>ev_arguments := Some JNull\<rparr>) session_state) = [] \<and>
   pendingCompletion
     (on_message ecma ''e1'' 0
        ((done_event ''c1'' ''complete_interview'')\<lparr>ev_arguments := Some JNull\<rparr>) session_state) = None \<and>
   invocation
     (tool_block ecma ''e1''
        ((done_event ''c1'' ''lookup_candidate'')\<lparr>ev_arguments := Some JNull\<rparr>) session_state) =
     Some \<lparr>inv_name = ''lookup_candidate'', inv_call_id = ''c1'', inv_arguments = JNull\<rparr>"
  by code_simp

lemma finalize_complete:
  assumes "get_prop (parsed_of J (rawArgs_of J (buffer_get s c) (ev_arguments ev))) ''summary'' = Inr sm"
      and "get_prop (parsed_of J (rawArgs_of J (buffer_get s c) (ev_arguments ev))) ''reason'' = Inr rs"
  shows "after (finalize J u c ''complete_interview'' ev s) =
           delete_buffer c
             (sendClientEvent J True u (acknowledgment J c)
                (s\<lparr>completionSummary := or_empty sm, completionReason := or_empty rs,
                   pendingCompletion := Some \<lparr>summary = or_empty sm, reason = or_empty rs\<rparr>\<rparr>))"
  using assms by (simp add: finalize_def Let_def)

lemma finalize_other:
  "n \<noteq> ''complete_interview'' \<Longrightarrow> after (finalize J u c n ev s) = delete_buffer c s"
  by (simp add: finalize_def Let_def)

lemma send_acknowledgment:
  "sent (sendClientEvent J True u (acknowledgment J c) s) =
     sent s @ [JSON_stringify J (JObj
       [(''type'', JStr ''tool.output''),
        (''call_id'', JStr c),
        (''output'', JStr (JSON_stringify J (JObj [(''acknowledged'', JBool True)]))),
        (''event_id'', JStr u)])]"
  by (simp add: sendClientEvent_def acknowledgment_def)

text \<open>The state on which a terminal event for \<open>c\<close> is finalized.\<close>

lemma terminal_props:
  assumes te: "terminal_for c n te"
      and iv: "invocation (tool_block J u te s) = Some iv"
  shows "inv_arguments iv =
           parsed_of J (rawArgs_of J
             (buffer_get (if text_of te = [] then s else append_delta c (text_of te) s) c)
             (ev_arguments te))"
  using iv unfolding terminal_tool_block[OF te] finalize_invocation by auto

text \<open>
  C3 (acknowledgment), as amended. At a terminal event for \<open>c\<close> whose decoded arguments
  are not \<^verbatim>\<open>null\<close>, the message listener itself sends exactly one text when the tool is
  \<^verbatim>\<open>complete_interview\<close> and none for any other tool name. The text is the encoding of
  the object with \<^verbatim>\<open>type\<close> \<^verbatim>\<open>tool.output\<close>, the same \<^verbatim>\<open>call_id\<close>, \<^verbatim>\<open>output\<close> the encoding
  of \<^verbatim>\<open>{acknowledged: true}\<close>, and the \<^verbatim>\<open>event_id\<close> that \<^verbatim>\<open>sendClientEvent\<close> adds. The
  promotion effect sends nothing. The encoding of \<^verbatim>\<open>{acknowledged: true}\<close> has no space
  after the colon.
\<close>

theorem acknowledgment_sent:
  assumes te: "terminal_for c n te"
      and iv: "invocation (tool_block J u te s) = Some iv"
      and nn: "inv_arguments iv \<noteq> JNull"
  shows \<open>sent (on_message J u now te s) =
           (if n = ''complete_interview''
            then sent s @ [JSON_stringify J (JObj
                   [(''type'', JStr ''tool.output''),
                    (''call_id'', JStr c),
                    (''output'', JStr (JSON_stringify J (JObj [(''acknowledged'', JBool True)]))),
                    (''event_id'', JStr u)])]
            else sent s) \<and>
         sent (completion_effect s') = sent s' \<and>
         JSON_stringify ecma (JObj [(''acknowledged'', JBool True)]) = ''{"acknowledged":true}''\<close>
proof -
  let ?s1 = "if text_of te = [] then s else append_delta c (text_of te) s"
  let ?P = "parsed_of J (rawArgs_of J (buffer_get ?s1 c) (ev_arguments te))"
  have P: "?P \<noteq> JNull" using terminal_props[OF te iv] nn by simp
  have s1: "sent ?s1 = sent s" by simp
  have "sent (after (tool_block J u te s)) =
           (if n = ''complete_interview''
            then sent s @ [JSON_stringify J (JObj
                   [(''type'', JStr ''tool.output''),
                    (''call_id'', JStr c),
                    (''output'', JStr (JSON_stringify J (JObj [(''acknowledged'', JBool True)]))),
                    (''event_id'', JStr u)])]
            else sent s)"
  proof (cases "n = ''complete_interview''")
    case True
    from get_prop_no_throw[OF P, of "''summary''"] get_prop_no_throw[OF P, of "''reason''"]
    obtain x y where xy: "get_prop ?P ''summary'' = Inr x" "get_prop ?P ''reason'' = Inr y"
      by blast
    show ?thesis
      unfolding terminal_tool_block[OF te] True finalize_complete[OF xy]
      using s1 by (simp add: send_acknowledgment)
  next
    case False
    then show ?thesis
      unfolding terminal_tool_block[OF te] finalize_other[OF False] using s1 by simp
  qed
  moreover have \<open>JSON_stringify ecma (JObj [(''acknowledged'', JBool True)]) = ''{"acknowledged":true}''\<close>
    by code_simp
  ultimately show ?thesis by (simp add: on_message_def)
qed

theorem acknowledgment_sent_witness:
  \<open>map json_parse
     (sent (on_message ecma ''e1'' 0
        ((done_event ''c1'' ''complete_interview'')\<lparr>ev_arguments := Some (JStr ''{"summary":"Bye"}'')\<rparr>)
        session_state)) =
   [Some (JObj [(''type'', JStr ''tool.output''), (''call_id'', JStr ''c1''),
                (''output'', JStr ''{"acknowledged":true}''), (''event_id'', JStr ''e1'')])]\<close>
proof -
  let ?te = \<open>(done_event ''c1'' ''complete_interview'')\<lparr>ev_arguments := Some (JStr ''{"summary":"Bye"}'')\<rparr>\<close>
  let ?iv = "\<lparr>inv_name = ''complete_interview'', inv_call_id = ''c1'',
              inv_arguments = JObj [(''summary'', JStr ''Bye'')]\<rparr>"
  have h1: "terminal_for ''c1'' ''complete_interview'' ?te" by code_simp
  have h2: "invocation (tool_block ecma ''e1'' ?te session_state) = Some ?iv" by code_simp
  have h3: "inv_arguments ?iv \<noteq> JNull" by simp
  have e: \<open>map json_parse
     (sent session_state @ [JSON_stringify ecma (JObj
                   [(''type'', JStr ''tool.output''),
                    (''call_id'', JStr ''c1''),
                    (''output'', JStr (JSON_stringify ecma (JObj [(''acknowledged'', JBool True)]))),
                    (''event_id'', JStr ''e1'')])]) =
   [Some (JObj [(''type'', JStr ''tool.output''), (''call_id'', JStr ''c1''),
                (''output'', JStr ''{"acknowledged":true}''), (''event_id'', JStr ''e1'')])]\<close>
    by code_simp
  show ?thesis
    using acknowledgment_sent[OF h1 h2 h3, of 0 session_state] e by simp
qed

theorem acknowledgment_payload_counterexample:
  \<open>map json_parse
     (sent (on_message ecma ''e1'' 0 (done_event ''c1'' ''complete_interview'') session_state)) =
   [Some (JObj [(''type'', JStr ''tool.output''), (''call_id'', JStr ''c1''),
                (''output'', JStr ''{"acknowledged":true}''), (''event_id'', JStr ''e1'')])] \<and>
   ''{"acknowledged":true}'' \<noteq> ''{"acknowledged": true}''\<close>
  by code_simp

section \<open>The completion record\<close>

lemma terminal_complete:
  assumes te: "terminal_for c ''complete_interview'' te"
      and iv: "invocation (tool_block J u te s) = Some iv"
      and sm: "get_prop (inv_arguments iv) ''summary'' = Inr sm"
      and rs: "get_prop (inv_arguments iv) ''reason'' = Inr rs"
  shows "pendingCompletion (after (tool_block J u te s)) =
           Some \<lparr>summary = or_empty sm, reason = or_empty rs\<rparr>"
    and "completionSummary (after (tool_block J u te s)) = or_empty sm"
    and "completionReason (after (tool_block J u te s)) = or_empty rs"
proof -
  let ?s1 = "if text_of te = [] then s else append_delta c (text_of te) s"
  let ?P = "parsed_of J (rawArgs_of J (buffer_get ?s1 c) (ev_arguments te))"
  have P: "inv_arguments iv = ?P" by (rule terminal_props[OF te iv])
  have xy: "get_prop ?P ''summary'' = Inr sm" "get_prop ?P ''reason'' = Inr rs"
    using sm rs P by simp_all
  show "pendingCompletion (after (tool_block J u te s)) =
           Some \<lparr>summary = or_empty sm, reason = or_empty rs\<rparr>"
    unfolding terminal_tool_block[OF te] finalize_complete[OF xy] by simp
  show "completionSummary (after (tool_block J u te s)) = or_empty sm"
    unfolding terminal_tool_block[OF te] finalize_complete[OF xy] by simp
  show "completionReason (after (tool_block J u te s)) = or_empty rs"
    unfolding terminal_tool_block[OF te] finalize_complete[OF xy] by simp
qed

text \<open>
  C9 (fields of the completion record), as amended. At a terminal
  \<^verbatim>\<open>complete_interview\<close> event whose decoded arguments are not \<^verbatim>\<open>null\<close>, the record
  stored as pending has for \<^verbatim>\<open>summary\<close> and for \<^verbatim>\<open>reason\<close> the value of the
  corresponding argument field when that value is truthy, whatever its type, and the empty
  string when the field is missing or falsy (\<^verbatim>\<open>null\<close>, \<^verbatim>\<open>false\<close>, \<^verbatim>\<open>0\<close>, the empty
  string).
\<close>

theorem completion_record_fields:
  assumes te: "terminal_for c ''complete_interview'' te"
      and iv: "invocation (tool_block J u te s) = Some iv"
      and sm: "get_prop (inv_arguments iv) ''summary'' = Inr sm"
      and rs: "get_prop (inv_arguments iv) ''reason'' = Inr rs"
  shows "\<exists>sv rv. pendingCompletion (after (tool_block J u te s)) = Some \<lparr>summary = sv, reason = rv\<rparr> \<and>
           (if truthy sm then sm = Some sv else sv = JStr []) \<and>
           (if truthy rs then rs = Some rv else rv = JStr [])"
proof -
  have "if truthy x then x = Some (or_empty x) else or_empty x = JStr []" for x
    by (cases x) (simp_all add: or_empty_def)
  from this[of sm] this[of rs] terminal_complete(1)[OF te iv sm rs]
  show ?thesis by blast
qed

theorem completion_record_fields_witness:
  \<open>\<exists>sv rv.
     pendingCompletion
       (after (tool_block ecma ''e1''
          ((done_event ''c1'' ''complete_interview'')\<lparr>ev_arguments := Some (JStr ''{"summary":0,"reason":"time_up"}'')\<rparr>)
          session_state)) = Some \<lparr>summary = sv, reason = rv\<rparr> \<and>
     sv = JStr [] \<and> rv = JStr ''time_up''\<close>
proof -
  let ?te = \<open>(done_event ''c1'' ''complete_interview'')\<lparr>ev_arguments := Some (JStr ''{"summary":0,"reason":"time_up"}'')\<rparr>\<close>
  let ?iv = "\<lparr>inv_name = ''complete_interview'', inv_call_id = ''c1'',
              inv_arguments = JObj [(''summary'', JNum 0), (''reason'', JStr ''time_up'')]\<rparr>"
  have h1: "terminal_for ''c1'' ''complete_interview'' ?te" by code_simp
  have h2: "invocation (tool_block ecma ''e1'' ?te session_state) = Some ?iv" by code_simp
  have h3: "get_prop (inv_arguments ?iv) ''summary'' = Inr (Some (JNum 0))" by simp
  have h4: "get_prop (inv_arguments ?iv) ''reason'' = Inr (Some (JStr ''time_up''))" by simp
  show ?thesis
    using completion_record_fields[OF h1 h2 h3 h4] by simp
qed

theorem non_string_summary_counterexample:
  \<open>pendingCompletion
     (on_message ecma ''e1'' 0
        ((done_event ''c1'' ''complete_interview'')\<lparr>ev_arguments := Some (JStr ''{"summary": 42, "reason": ["x"]}'')\<rparr>)
        session_state) =
   Some \<lparr>summary = JNum 42, reason = JArr [JStr ''x'']\<rparr>\<close>
  by code_simp



section \<open>Cleanup of a buffer at its terminal event\<close>

text \<open>
  C7 (cleanup at the terminal event): the code at the input where it fails. One terminal
  \<^verbatim>\<open>complete_interview\<close> event carries the text \<^verbatim>\<open>null\<close> as its arguments. The text is
  buffered and decodes to \<^verbatim>\<open>null\<close>; reading \<^verbatim>\<open>parsed.summary\<close> throws, the \<^verbatim>\<open>catch\<close>
  swallows the error, and the \<^verbatim>\<open>delete\<close> is never reached: the buffer survives its
  terminal event, nothing is acknowledged and nothing becomes pending.
\<close>

theorem null_arguments_keep_buffer:
  "toolCallBuffersRef
     (on_message ecma ''e1'' 0
        ((done_event ''c1'' ''complete_interview'')\<lparr>ev_arguments := Some (JStr ''null'')\<rparr>)
        session_state) ''c1'' = Some ''null'' \<and>
   thrown
     (tool_block ecma ''e1''
        ((done_event ''c1'' ''complete_interview'')\<lparr>ev_arguments := Some (JStr ''null'')\<rparr>)
        session_state) = Some TypeError \<and>
   sent
     (on_message ecma ''e1'' 0
        ((done_event ''c1'' ''complete_interview'')\<lparr>ev_arguments := Some (JStr ''null'')\<rparr>)
        session_state) = [] \<and>
   pendingCompletion
     (on_message ecma ''e1'' 0
        ((done_event ''c1'' ''complete_interview'')\<lparr>ev_arguments := Some (JStr ''null'')\<rparr>)
        session_state) = None"
  by code_simp

text \<open>Whenever the \<^verbatim>\<open>try\<close> block throws nothing, the buffer is gone after the terminal event.\<close>

lemma terminal_deletes_buffer:
  assumes te: "terminal_for c n te"
      and ok: "thrown (tool_block J u te s) = None"
  shows "toolCallBuffersRef (on_message J u now te s) c = None"
proof -
  let ?s1 = "if text_of te = [] then s else append_delta c (text_of te) s"
  let ?P = "parsed_of J (rawArgs_of J (buffer_get ?s1 c) (ev_arguments te))"
  show ?thesis
  proof (cases "n = ''complete_interview''")
    case True
    with ok have P: "?P \<noteq> JNull"
      unfolding terminal_tool_block[OF te] finalize_thrown by (auto split: if_splits)
    from get_prop_no_throw[OF P, of "''summary''"] get_prop_no_throw[OF P, of "''reason''"]
    obtain x y where xy: "get_prop ?P ''summary'' = Inr x" "get_prop ?P ''reason'' = Inr y"
      by blast
    show ?thesis
      unfolding on_message_def terminal_tool_block[OF te] True finalize_complete[OF xy]
      by (simp add: delete_buffer_def)
  next
    case False
    then show ?thesis
      unfolding on_message_def terminal_tool_block[OF te] finalize_other[OF False]
      by (simp add: delete_buffer_def)
  qed
qed

section \<open>Driver A and its fallback timer\<close>

lemma talk_signals_disjoint: "isTalkDelta t \<Longrightarrow> \<not> isTalkEnd t"
  by (auto simp: isTalkDelta_def isTalkEnd_def startsWith_def)

lemma clear_talking_timeout_wf:
  "timers_wf s \<Longrightarrow> timeouts (clear_talking_timeout s) = Map.empty"
  by (auto simp: timers_wf_def clear_talking_timeout_def clearTimeout_def fun_eq_iff
      split: option.splits)

lemma clear_talking_timeout_keeps [simp]:
  "talkingTimeoutRef (clear_talking_timeout s) = talkingTimeoutRef s"
  "last_handle (clear_talking_timeout s) = last_handle s"
  "interviewerState (clear_talking_timeout s) = interviewerState s"
  by (simp_all add: clear_talking_timeout_def clearTimeout_def split: option.splits)

lemma timers_wf_cong:
  "timeouts s' = timeouts s \<Longrightarrow> talkingTimeoutRef s' = talkingTimeoutRef s \<Longrightarrow>
   timers_wf s' = timers_wf s"
  by (simp add: timers_wf_def split: option.splits)

lemma talk_start:
  assumes wf: "timers_wf s" and ts: "isTalkDelta (type_of ev)"
  shows "interviewerState (talk_block now ev s) = Talking"
    and "talkingTimeoutRef (talk_block now ev s) = Some (Suc (last_handle s))"
    and "timeouts (talk_block now ev s) = [Suc (last_handle s) \<mapsto> now + 4000]"
proof -
  have wf': "timers_wf (s\<lparr>interviewerState := Talking\<rparr>)"
    by (rule timers_wf_cong[THEN iffD2, OF _ _ wf]) simp_all
  have e: "timeouts (clear_talking_timeout (s\<lparr>interviewerState := Talking\<rparr>)) = Map.empty"
    by (rule clear_talking_timeout_wf[OF wf'])
  note ne = talk_signals_disjoint[OF ts]
  show "interviewerState (talk_block now ev s) = Talking"
    using ts ne by (simp add: talk_block_def setTimeout_def Let_def)
  show "talkingTimeoutRef (talk_block now ev s) = Some (Suc (last_handle s))"
    using ts ne by (simp add: talk_block_def setTimeout_def Let_def)
  show "timeouts (talk_block now ev s) = [Suc (last_handle s) \<mapsto> now + 4000]"
    using ts ne e by (simp add: talk_block_def setTimeout_def Let_def TALKING_HOLD_MS_def)
qed

lemma talk_end:
  assumes wf: "timers_wf s" and te: "isTalkEnd (type_of ev)"
  shows "interviewerState (talk_block now ev s) = Idle"
    and "timeouts (talk_block now ev s) = Map.empty"
    and "talkingTimeoutRef (talk_block now ev s) = talkingTimeoutRef s"
proof -
  from te have nd: "\<not> isTalkDelta (type_of ev)" using talk_signals_disjoint by blast
  show "interviewerState (talk_block now ev s) = Idle"
    using te nd by (simp add: talk_block_def Let_def)
  show "timeouts (talk_block now ev s) = Map.empty"
    using te nd clear_talking_timeout_wf[OF wf] by (simp add: talk_block_def Let_def)
  show "talkingTimeoutRef (talk_block now ev s) = talkingTimeoutRef s"
    using te nd by (simp add: talk_block_def Let_def)
qed

lemma talk_block_wf: "timers_wf s \<Longrightarrow> timers_wf (talk_block now ev s)"
proof -
  assume wf: "timers_wf s"
  consider "isTalkDelta (type_of ev)" | "isTalkEnd (type_of ev)"
    | "\<not> isTalkDelta (type_of ev)" "\<not> isTalkEnd (type_of ev)" by blast
  then show ?thesis
  proof cases
    case 1
    from talk_start(2,3)[OF wf 1, of now] show ?thesis by (simp add: timers_wf_def)
  next
    case 2
    from talk_end(2,3)[OF wf 2, of now] wf show ?thesis
      by (auto simp: timers_wf_def split: option.splits)
  next
    case 3
    then show ?thesis using wf by (simp add: talk_block_def)
  qed
qed

lemma tool_block_wf: "timers_wf (after (tool_block J u ev s)) = timers_wf s"
  by (rule timers_wf_cong) simp_all

lemma on_message_wf: "timers_wf s \<Longrightarrow> timers_wf (on_message J u now ev s)"
  by (simp add: on_message_def talk_block_wf tool_block_wf)

text \<open>
  C6 (driver A). In a state where every armed fallback timeout is the one
  \<^verbatim>\<open>talkingTimeoutRef\<close> holds, an inbound talk-start event leaves the presentation state
  \<^verbatim>\<open>talking\<close> and exactly one fallback timeout armed, a new one due 4000 ms after the
  event (any earlier one is cancelled); when that timeout fires, at or after its deadline,
  the state becomes \<^verbatim>\<open>idle\<close>. An inbound talk-end event leaves no fallback timeout armed
  and the state \<^verbatim>\<open>idle\<close>. The condition on the timers holds again after the event.
\<close>

theorem driver_A_signals:
  assumes wf: "timers_wf s"
  shows "(isTalkDelta (type_of ev) \<longrightarrow>
            interviewerState (on_message J u now ev s) = Talking \<and>
            talkingTimeoutRef (on_message J u now ev s) = Some (Suc (last_handle s)) \<and>
            timeouts (on_message J u now ev s) = [Suc (last_handle s) \<mapsto> now + 4000] \<and>
            (\<forall>t. interviewerState
                   (timeout_fires (Suc (last_handle s)) t (on_message J u now ev s)) =
                 (if now + 4000 \<le> t then Idle else Talking))) \<and>
         (isTalkEnd (type_of ev) \<longrightarrow>
            interviewerState (on_message J u now ev s) = Idle \<and>
            timeouts (on_message J u now ev s) = Map.empty) \<and>
         timers_wf (on_message J u now ev s)"
proof -
  let ?s = "after (tool_block J u ev s)"
  have wf': "timers_wf ?s" using wf by (simp add: tool_block_wf)
  have lh: "last_handle ?s = last_handle s" by simp
  show ?thesis
    using talk_start[OF wf', of ev now] talk_end(1,2)[OF wf', of ev now] on_message_wf[OF wf, of J u now ev]
    by (auto simp: on_message_def timeout_fires_def lh)
qed

theorem driver_A_signals_witness:
  "interviewerState (on_message ecma ''e1'' 1000 (typed_event ''response.output_audio.delta'') session_state) = Talking \<and>
   timeouts (on_message ecma ''e1'' 1000 (typed_event ''response.output_audio.delta'') session_state) = [1 \<mapsto> 5000] \<and>
   interviewerState
     (timeout_fires 1 5000
        (on_message ecma ''e1'' 1000 (typed_event ''response.output_audio.delta'') session_state)) = Idle \<and>
   interviewerState
     (on_message ecma ''e2'' 2000 (typed_event ''response.done'')
        (on_message ecma ''e1'' 1000 (typed_event ''response.output_audio.delta'') session_state)) = Idle \<and>
   timeouts
     (on_message ecma ''e2'' 2000 (typed_event ''response.done'')
        (on_message ecma ''e1'' 1000 (typed_event ''response.output_audio.delta'') session_state)) = Map.empty"
proof -
  let ?e1 = "typed_event ''response.output_audio.delta''"
  let ?e2 = "typed_event ''response.done''"
  let ?s1 = "on_message ecma ''e1'' 1000 ?e1 session_state"
  have wf0: "timers_wf session_state"
    by (simp add: timers_wf_def session_state_def initial_state_def)
  have d1: "isTalkDelta (type_of ?e1)" by code_simp
  have d2: "isTalkEnd (type_of ?e2)" by code_simp
  have lh: "last_handle session_state = 0" by (simp add: session_state_def initial_state_def)
  note a = driver_A_signals[OF wf0, of ?e1 ecma "''e1''" 1000]
  from a have wf1: "timers_wf ?s1" by simp
  note b = driver_A_signals[OF wf1, of ?e2 ecma "''e2''" 2000]
  from a d1 have a1: "interviewerState ?s1 = Talking" "timeouts ?s1 = [1 \<mapsto> 5000]"
    "interviewerState (timeout_fires 1 5000 ?s1) = Idle"
    by (simp_all add: lh)
  from b d2 have b1: "interviewerState (on_message ecma ''e2'' 2000 ?e2 ?s1) = Idle"
    "timeouts (on_message ecma ''e2'' 2000 ?e2 ?s1) = Map.empty"
    by simp_all
  from a1 b1 show ?thesis by simp
qed

lemma timers_wf_initial: "timers_wf initial_state"
  by (simp add: timers_wf_def initial_state_def)

lemma timeout_fires_wf: "timers_wf s \<Longrightarrow> timers_wf (timeout_fires h now s)"
  by (auto simp: timers_wf_def timeout_fires_def split: option.splits if_splits)

lemma tick_timers [simp]:
  "timeouts (tick rms now s) = timeouts s"
  "talkingTimeoutRef (tick rms now s) = talkingTimeoutRef s"
  by (simp_all add: tick_def requestAnimationFrame_def Let_def)

lemma frame_fires_timers [simp]:
  "timeouts (frame_fires h rms now s) = timeouts s"
  "talkingTimeoutRef (frame_fires h rms now s) = talkingTimeoutRef s"
  by (simp_all add: frame_fires_def)

lemma setup_timers [simp]:
  "timeouts (setupVoiceActivityDetection s) = timeouts s"
  "talkingTimeoutRef (setupVoiceActivityDetection s) = talkingTimeoutRef s"
  by (simp_all add: setupVoiceActivityDetection_def requestAnimationFrame_def
        cancelAnimationFrame_def Let_def split: option.splits)

lemma user_text_timers [simp]:
  "timeouts (user_text J u1 u2 m s) = timeouts s"
  "talkingTimeoutRef (user_text J u1 u2 m s) = talkingTimeoutRef s"
  by (simp_all add: user_text_def sendTextMessage_def sendClientEvent_def Let_def)

text \<open>Teardown leaves the fallback timer and the buffers as they are.\<close>

lemma stopSession_keeps [simp]:
  "timeouts (snd (stopSession s)) = timeouts s"
  "talkingTimeoutRef (snd (stopSession s)) = talkingTimeoutRef s"
  "toolCallBuffersRef (snd (stopSession s)) = toolCallBuffersRef s"
  by (simp_all add: stopSession_def cancelAnimationFrame_def Let_def split: option.splits)

lemma completion_effect_timers [simp]:
  "timeouts (completion_effect s) = timeouts s"
  "talkingTimeoutRef (completion_effect s) = talkingTimeoutRef s"
  by (simp_all add: completion_effect_def)

lemma handler_wf: "timers_wf s \<Longrightarrow> timers_wf (handler J a s)"
proof (cases a)
  case (Message u now ev)
  assume "timers_wf s"
  then show ?thesis using Message by (simp add: on_message_wf)
next
  case (Timeout h now)
  assume "timers_wf s"
  then show ?thesis using Timeout by (simp add: timeout_fires_wf)
next
  case (Frame h rms now)
  assume "timers_wf s"
  then show ?thesis using Frame timers_wf_cong[of "frame_fires h rms now s" s] by simp
next
  case Track
  assume "timers_wf s"
  then show ?thesis using Track timers_wf_cong[of "setupVoiceActivityDetection s" s] by simp
next
  case (UserText u1 u2 m)
  assume "timers_wf s"
  then show ?thesis using UserText timers_wf_cong[of "user_text J u1 u2 m s" s] by simp
next
  case Stop
  assume "timers_wf s"
  then show ?thesis using Stop timers_wf_cong[of "snd (stopSession s)" s] by simp
qed

lemma step_wf: "timers_wf s \<Longrightarrow> timers_wf (step J a s)"
  using timers_wf_cong[of "completion_effect (handler J a s)" "handler J a s"]
  by (simp add: step_def handler_wf)

text \<open>The condition on the timers holds in every state an execution reaches from the
  mounted component.\<close>

lemma exec_wf: "timers_wf s \<Longrightarrow> timers_wf (exec J acts s)"
  by (induction acts arbitrary: s) (simp_all add: step_wf)

section \<open>Deferred visibility\<close>

lemma on_message_completed [simp]:
  "isInterviewCompleted (on_message J u now ev s) = isInterviewCompleted s"
  by (simp add: on_message_def)

lemma on_message_pending:
  "pendingCompletion s \<noteq> None \<Longrightarrow> pendingCompletion (on_message J u now ev s) \<noteq> None"
  by (simp add: on_message_def tool_block_pending)

lemma timeout_fires_completion [simp]:
  "isInterviewCompleted (timeout_fires h now s) = isInterviewCompleted s"
  "pendingCompletion (timeout_fires h now s) = pendingCompletion s"
  by (simp_all add: timeout_fires_def split: option.splits)

lemma tick_completion [simp]:
  "isInterviewCompleted (tick rms now s) = isInterviewCompleted s"
  "pendingCompletion (tick rms now s) = pendingCompletion s"
  by (simp_all add: tick_def requestAnimationFrame_def Let_def)

lemma frame_fires_completion [simp]:
  "isInterviewCompleted (frame_fires h rms now s) = isInterviewCompleted s"
  "pendingCompletion (frame_fires h rms now s) = pendingCompletion s"
  by (simp_all add: frame_fires_def)

lemma setup_completion [simp]:
  "isInterviewCompleted (setupVoiceActivityDetection s) = isInterviewCompleted s"
  "pendingCompletion (setupVoiceActivityDetection s) = pendingCompletion s"
  by (simp_all add: setupVoiceActivityDetection_def requestAnimationFrame_def
        cancelAnimationFrame_def Let_def split: option.splits)

lemma user_text_completion [simp]:
  "isInterviewCompleted (user_text J u1 u2 m s) = isInterviewCompleted s"
  "pendingCompletion (user_text J u1 u2 m s) = pendingCompletion s"
  by (simp_all add: user_text_def sendTextMessage_def Let_def)

lemma handler_completed:
  "a \<noteq> Stop \<Longrightarrow> isInterviewCompleted (handler J a s) = isInterviewCompleted s"
  by (cases a) simp_all

lemma handler_pending:
  "a \<noteq> Stop \<Longrightarrow> pendingCompletion s \<noteq> None \<Longrightarrow> pendingCompletion (handler J a s) \<noteq> None"
  by (cases a) (simp_all add: on_message_pending)

text \<open>A record is waiting: pending, not yet visible, the agent not idle.\<close>

lemma step_from_waiting:
  assumes "a \<noteq> Stop" "\<not> isInterviewCompleted s" "pendingCompletion s \<noteq> None"
  shows "isInterviewCompleted (step J a s) \<longleftrightarrow> interviewerState (step J a s) = Idle"
    and "interviewerState (step J a s) \<noteq> Idle \<Longrightarrow> pendingCompletion (step J a s) \<noteq> None"
  using handler_completed[OF assms(1), of J s] handler_pending[OF assms(1,3), of J] assms(2)
  by (auto simp: step_def completion_effect_def)

lemma step_keeps_completed:
  "a \<noteq> Stop \<Longrightarrow> isInterviewCompleted s \<Longrightarrow> isInterviewCompleted (step J a s)"
  using handler_completed[of a J s] by (simp add: step_def completion_effect_def)

lemma exec_keeps_completed:
  "Stop \<notin> set acts \<Longrightarrow> isInterviewCompleted s \<Longrightarrow> isInterviewCompleted (exec J acts s)"
  by (induction acts arbitrary: s) (auto simp: step_keeps_completed)

lemma waiting_run:
  assumes "Stop \<notin> set acts" "\<not> isInterviewCompleted s" "pendingCompletion s \<noteq> None"
  shows "(isInterviewCompleted (exec J acts s) \<longleftrightarrow>
            (\<exists>s' \<in> set (trace J acts s). interviewerState s' = Idle)) \<and>
         ((\<forall>s' \<in> set (trace J acts s). interviewerState s' \<noteq> Idle) \<longrightarrow>
            (\<forall>s' \<in> set (trace J acts s). \<not> isInterviewCompleted s' \<and> pendingCompletion s' \<noteq> None))"
  using assms
proof (induction acts arbitrary: s)
  case Nil
  then show ?case by simp
next
  case (Cons a acts)
  from Cons.prems have a: "a \<noteq> Stop" and ns: "Stop \<notin> set acts" by auto
  note st = step_from_waiting[OF a Cons.prems(2,3), of J]
  show ?case
  proof (cases "interviewerState (step J a s) = Idle")
    case True
    with st(1) have "isInterviewCompleted (step J a s)" by simp
    from exec_keeps_completed[OF ns this] True show ?thesis by simp
  next
    case False
    with st have w: "\<not> isInterviewCompleted (step J a s)" "pendingCompletion (step J a s) \<noteq> None"
      by simp_all
    from Cons.IH[OF ns w] False w show ?thesis by simp
  qed
qed

text \<open>
  C2 (deferred visibility), as amended. \<open>s\<close> is the state in which a handler has just
  marked a record pending, no completion being visible yet; the effect runs, then any
  callbacks other than the teardown, each followed by the effect. The completed flag is set at the end if and only
  if the presentation state was \<^verbatim>\<open>idle\<close> in \<open>s\<close> or after one of the callbacks. If the
  presentation state is \<^verbatim>\<open>talking\<close> in \<open>s\<close> and after every callback, then at no point of
  the execution is the flag set, and the record stays pending.
\<close>

theorem deferred_visibility:
  assumes ns: "Stop \<notin> set acts"
      and pend: "pendingCompletion s \<noteq> None"
      and hid: "\<not> isInterviewCompleted s"
  shows "(isInterviewCompleted (exec J acts (completion_effect s)) \<longleftrightarrow>
            (\<exists>s' \<in> set (s # trace J acts (completion_effect s)). interviewerState s' = Idle)) \<and>
         ((\<forall>s' \<in> set (s # trace J acts (completion_effect s)). interviewerState s' = Talking) \<longrightarrow>
            (\<forall>s' \<in> set (completion_effect s # trace J acts (completion_effect s)).
               \<not> isInterviewCompleted s' \<and> pendingCompletion s' \<noteq> None))"
proof (cases "interviewerState s = Idle")
  case True
  with pend have "isInterviewCompleted (completion_effect s)"
    by (simp add: completion_effect_def)
  from exec_keeps_completed[OF ns this] True show ?thesis by simp
next
  case False
  then have e: "completion_effect s = s" by (simp add: completion_effect_def)
  from waiting_run[OF ns hid pend, of J] False hid pend show ?thesis
    unfolding e by auto
qed


theorem deferred_visibility_witness:
  "pendingCompletion
     (on_message ecma ''e1'' 0 (done_event ''c1'' ''complete_interview'')
        (session_state\<lparr>interviewerState := Talking\<rparr>)) \<noteq> None \<and>
   \<not> isInterviewCompleted
     (exec ecma [Message ''e2'' 100 (typed_event ''response.output_audio.delta'')]
        (completion_effect
           (on_message ecma ''e1'' 0 (done_event ''c1'' ''complete_interview'')
              (session_state\<lparr>interviewerState := Talking\<rparr>)))) \<and>
   isInterviewCompleted
     (exec ecma [Message ''e2'' 100 (typed_event ''response.output_audio.delta''),
                 Message ''e3'' 200 (typed_event ''response.done'')]
        (completion_effect
           (on_message ecma ''e1'' 0 (done_event ''c1'' ''complete_interview'')
              (session_state\<lparr>interviewerState := Talking\<rparr>))))"
proof -
  let ?s = "on_message ecma ''e1'' 0 (done_event ''c1'' ''complete_interview'')
              (session_state\<lparr>interviewerState := Talking\<rparr>)"
  let ?a1 = "[Message ''e2'' 100 (typed_event ''response.output_audio.delta'')]"
  let ?a2 = "[Message ''e2'' 100 (typed_event ''response.output_audio.delta''),
              Message ''e3'' 200 (typed_event ''response.done'')]"
  have n1: "Stop \<notin> set ?a1" and n2: "Stop \<notin> set ?a2" by simp_all
  have p: "pendingCompletion ?s \<noteq> None" by code_simp
  have h: "\<not> isInterviewCompleted ?s" by code_simp
  have t1: "\<not> (\<exists>s' \<in> set (?s # trace ecma ?a1 (completion_effect ?s)). interviewerState s' = Idle)"
    by code_simp
  have t2: "\<exists>s' \<in> set (?s # trace ecma ?a2 (completion_effect ?s)). interviewerState s' = Idle"
    by code_simp
  from deferred_visibility[OF n1 p h, of ecma] t1
  have "\<not> isInterviewCompleted (exec ecma ?a1 (completion_effect ?s))" by blast
  moreover from deferred_visibility[OF n2 p h, of ecma] t2
  have "isInterviewCompleted (exec ecma ?a2 (completion_effect ?s))" by blast
  ultimately show ?thesis using p by blast
qed

text \<open>
  Without the two conditions the claim fails. The teardown leaves the presentation state
  \<^verbatim>\<open>idle\<close> and discards the pending record: nothing becomes visible. And while an
  earlier completion is visible, a record finalized during \<^verbatim>\<open>talking\<close> is on display at
  once, the flag being set already, although the state has not been \<^verbatim>\<open>idle\<close> since.
\<close>

theorem deferred_visibility_counterexample:
  \<open>pendingCompletion
     (on_message ecma ''e1'' 0 (done_event ''c1'' ''complete_interview'')
        (session_state\<lparr>interviewerState := Talking\<rparr>)) \<noteq> None \<and>
   interviewerState
     (exec ecma [Stop]
        (completion_effect
           (on_message ecma ''e1'' 0 (done_event ''c1'' ''complete_interview'')
              (session_state\<lparr>interviewerState := Talking\<rparr>)))) = Idle \<and>
   \<not> isInterviewCompleted
     (exec ecma [Stop]
        (completion_effect
           (on_message ecma ''e1'' 0 (done_event ''c1'' ''complete_interview'')
              (session_state\<lparr>interviewerState := Talking\<rparr>)))) \<and>
   isInterviewCompleted
     (exec ecma
        [Message ''e1'' 0
           ((done_event ''c1'' ''complete_interview'')\<lparr>ev_arguments := Some (JStr ''{"summary":"First"}'')\<rparr>),
         Message ''e2'' 100 (typed_event ''response.created'')] session_state) \<and>
   map interviewerState
     (trace ecma
        [Message ''e3'' 200
           ((done_event ''c2'' ''complete_interview'')\<lparr>ev_arguments := Some (JStr ''{"summary":"Second"}'')\<rparr>),
         Message ''e4'' 300 (typed_event ''response.output_audio.delta'')]
        (exec ecma
           [Message ''e1'' 0
              ((done_event ''c1'' ''complete_interview'')\<lparr>ev_arguments := Some (JStr ''{"summary":"First"}'')\<rparr>),
            Message ''e2'' 100 (typed_event ''response.created'')] session_state)) =
     [Talking, Talking] \<and>
   map isInterviewCompleted
     (trace ecma
        [Message ''e3'' 200
           ((done_event ''c2'' ''complete_interview'')\<lparr>ev_arguments := Some (JStr ''{"summary":"Second"}'')\<rparr>),
         Message ''e4'' 300 (typed_event ''response.output_audio.delta'')]
        (exec ecma
           [Message ''e1'' 0
              ((done_event ''c1'' ''complete_interview'')\<lparr>ev_arguments := Some (JStr ''{"summary":"First"}'')\<rparr>),
            Message ''e2'' 100 (typed_event ''response.created'')] session_state)) =
     [True, True] \<and>
   map completionSummary
     (trace ecma
        [Message ''e3'' 200
           ((done_event ''c2'' ''complete_interview'')\<lparr>ev_arguments := Some (JStr ''{"summary":"Second"}'')\<rparr>),
         Message ''e4'' 300 (typed_event ''response.output_audio.delta'')]
        (exec ecma
           [Message ''e1'' 0
              ((done_event ''c1'' ''complete_interview'')\<lparr>ev_arguments := Some (JStr ''{"summary":"First"}'')\<rparr>),
            Message ''e2'' 100 (typed_event ''response.created'')] session_state)) =
     [JStr ''Second'', JStr ''Second'']\<close>
  by code_simp

section \<open>Rounding to a double\<close>

lemma pow2_pos: "0 < pow2 k"
  by (simp add: pow2_def)

lemma round_half_even_le: "x \<le> of_int m \<Longrightarrow> round_half_even x \<le> m"
proof -
  assume a: "x \<le> of_int m"
  then have f: "\<lfloor>x\<rfloor> \<le> m" by (simp add: floor_le_iff) 
  show ?thesis
  proof (cases "\<lfloor>x\<rfloor> = m")
    case True
    with a have "x = of_int m" using of_int_floor_le[of x] by simp
    then show ?thesis by (simp add: round_half_even_def)
  next
    case False
    with f have "\<lfloor>x\<rfloor> + 1 \<le> m" by simp
    then show ?thesis by (auto simp: round_half_even_def Let_def)
  qed
qed


lemma round_half_even_nonpos: "x \<le> 0 \<Longrightarrow> round_half_even x \<le> 0"
  using round_half_even_le[of x 0] by simp

lemma floor_log2_le:
  assumes "0 < x" "x < 2 ^ n"
  shows "floor_log2 x \<le> int n - 1"
proof (cases "1 \<le> x")
  case True
  have "\<lfloor>x\<rfloor> < 2 ^ n" using assms(2) by (simp add: floor_less_iff)
  then have "bitlen \<lfloor>x\<rfloor> \<le> int n" by (simp add: bitlen_le_iff_power)
  with True show ?thesis by (simp add: floor_log2_def)
next
  case False
  with assms(1) have "1 < 1 / x" by simp
  then have "1 < \<lceil>1 / x\<rceil>" by (simp add: less_ceiling_iff)
  then have "bitlen (\<lceil>1 / x\<rceil> - 1) \<noteq> 0" by (simp add: bitlen_eq_zero_iff)
  with bitlen_nonneg[of "\<lceil>1 / x\<rceil> - 1"] have "1 \<le> bitlen (\<lceil>1 / x\<rceil> - 1)" by linarith
  with False show ?thesis by (simp add: floor_log2_def)
qed

text \<open>Rounding to the nearest double does not carry a value over an integer below \<open>2^53\<close>.\<close>

lemma to_double_le_int:
  assumes "x \<le> of_int m" "0 \<le> m" "m < 2 ^ 53"
  shows "to_double x \<le> of_int m"
proof -
  consider "x = 0" | "x < 0" | "0 < x" by linarith
  then show ?thesis
  proof cases
    case 1
    then show ?thesis using assms(2) by (simp add: to_double_def)
  next
    case 2
    let ?q = "pow2 (max (floor_log2 \<bar>x\<bar>) (- 1022) - 52)"
    have "x / ?q \<le> 0" using 2 pow2_pos[of "max (floor_log2 \<bar>x\<bar>) (- 1022) - 52"]
      by (simp add: divide_le_0_iff)
    then have "round_half_even (x / ?q) \<le> 0" by (rule round_half_even_nonpos)
    then have "of_int (round_half_even (x / ?q)) * ?q \<le> 0"
      using pow2_pos[of "max (floor_log2 \<bar>x\<bar>) (- 1022) - 52"]
      by (simp add: mult_le_0_iff)
    with 2 assms(2) show ?thesis by (simp add: to_double_def Let_def)
  next
    case 3
    let ?e = "max (floor_log2 \<bar>x\<bar>) (- 1022)"
    have "x < 2 ^ 53"
    proof -
      have "(of_int m :: rat) < of_int (2 ^ 53)" using assms(3) by (simp only: of_int_less_iff)
      with assms(1) show ?thesis by simp
    qed
    with 3 have "floor_log2 \<bar>x\<bar> \<le> 52" using floor_log2_le[of "\<bar>x\<bar>" 53] by simp
    then have e: "?e - 52 \<le> 0" by simp
    define k where "k = nat (- (?e - 52))"
    have q: "pow2 (?e - 52) = 1 / 2 ^ k"
    proof (cases "?e - 52 = 0")
      case True
      then show ?thesis by (simp add: pow2_def k_def)
    next
      case False
      with e have "?e - 52 < 0" by linarith
      then show ?thesis by (simp add: pow2_def k_def)
    qed
    have "x / pow2 (?e - 52) = x * 2 ^ k" by (simp add: q)
    also have "\<dots> \<le> of_int m * 2 ^ k" using assms(1) by simp
    also have "\<dots> = of_int (m * 2 ^ k)" by simp
    finally have "round_half_even (x / pow2 (?e - 52)) \<le> m * 2 ^ k"
      by (rule round_half_even_le)
    then have "(of_int (round_half_even (x / pow2 (?e - 52))) :: rat) \<le> of_int (m * 2 ^ k)"
      by (simp only: of_int_le_iff)
    then have "of_int (round_half_even (x / pow2 (?e - 52))) * pow2 (?e - 52) \<le> of_int m"
      by (simp add: q field_simps)
    with 3 show ?thesis by (simp add: to_double_def Let_def)
  qed
qed

text \<open>A computed difference above the required silence is an exact difference above it.\<close>

lemma double_minus_gt_silence:
  "double_minus a b > VAD_REQUIRED_SILENCE_MS \<Longrightarrow> a - b > VAD_REQUIRED_SILENCE_MS"
proof (rule ccontr)
  assume g: "double_minus a b > VAD_REQUIRED_SILENCE_MS" and "\<not> a - b > VAD_REQUIRED_SILENCE_MS"
  then have "a - b \<le> of_int 300" by (simp add: VAD_REQUIRED_SILENCE_MS_def)
  from to_double_le_int[OF this] have "to_double (a - b) \<le> 300" by simp
  with g show False by (simp add: double_minus_def VAD_REQUIRED_SILENCE_MS_def)
qed

text \<open>The converse fails: the clock readings nearest to 0.1 and 300.1 are more than 300
  apart, and their computed difference is 300.\<close>

lemma rounded_difference_example:
  "to_double (3001 / 10) - to_double (1 / 10) > 300 \<and>
   double_minus (to_double (3001 / 10)) (to_double (1 / 10)) = 300"
  by code_simp

section \<open>Driver B: hysteresis of the sampler\<close>

lemma tick_analyser [simp]: "analyserRef (tick rms now s) = analyserRef s"
  by (simp add: tick_def requestAnimationFrame_def Let_def)

lemma tick_fields:
  assumes "analyserRef s"
  shows "lastAboveThresholdMsRef (tick rms now s) =
           (if rms \<ge> VAD_START_THRESHOLD then now else lastAboveThresholdMsRef s)"
    and "isSpeakingRef (tick rms now s) =
           (if rms \<ge> VAD_START_THRESHOLD then True
            else if isSpeakingRef s \<and> rms < VAD_STOP_THRESHOLD \<and>
                    double_minus now (lastAboveThresholdMsRef s) > VAD_REQUIRED_SILENCE_MS then False
            else isSpeakingRef s)"
    and "interviewerState (tick rms now s) =
           (if rms \<ge> VAD_START_THRESHOLD
            then (if isSpeakingRef s then interviewerState s else Talking)
            else if isSpeakingRef s \<and> rms < VAD_STOP_THRESHOLD \<and>
                    double_minus now (lastAboveThresholdMsRef s) > VAD_REQUIRED_SILENCE_MS then Idle
            else interviewerState s)"
  using assms by (simp_all add: tick_def requestAnimationFrame_def Let_def)

lemma vad_run_Nil [simp]: "vad_run [] s = s"
  by (simp add: vad_run_def)

lemma vad_run_Cons: "vad_run ((rms, now) # ss) s = vad_run ss (tick rms now s)"
  by (simp add: vad_run_def)

lemma vad_run_snoc: "vad_run (ss @ [(rms, now)]) s = tick rms now (vad_run ss s)"
  by (simp add: vad_run_def)

lemma vad_run_analyser [simp]: "analyserRef (vad_run ss s) = analyserRef s"
proof (induction ss arbitrary: s)
  case Nil
  show ?case by simp
next
  case (Cons x ss)
  obtain rms now where x: "x = (rms, now)" by (cases x)
  show ?case unfolding x vad_run_Cons Cons.IH by simp
qed

lemma vad_run_last_above:
  "analyserRef s \<Longrightarrow>
   lastAboveThresholdMsRef (vad_run ss s) = last_above ss (lastAboveThresholdMsRef s)"
proof (induction ss arbitrary: s)
  case Nil
  then show ?case by (simp add: last_above_def)
next
  case (Cons x ss)
  obtain rms now where x: "x = (rms, now)" by (cases x)
  from Cons.prems have a: "analyserRef (tick rms now s)" by simp
  from Cons.IH[OF a] tick_fields(1)[OF Cons.prems, of rms now] x
  show ?case by (simp add: vad_run_Cons last_above_def)
qed

text \<open>While every sample is taken within the required silence of a sample at or above
  the start threshold, a speaking sampler keeps speaking and writes nothing.\<close>

lemma vad_run_holds:
  assumes "analyserRef s" "isSpeakingRef s" "t0 \<le> lastAboveThresholdMsRef s"
      and "\<forall>(rms, now) \<in> set ss. t0 \<le> now \<and> now \<le> t0 + VAD_REQUIRED_SILENCE_MS"
  shows "interviewerState (vad_run ss s) = interviewerState s \<and> isSpeakingRef (vad_run ss s)"
  using assms
proof (induction ss arbitrary: s)
  case Nil
  then show ?case by simp
next
  case (Cons x ss)
  obtain rms now where x: "x = (rms, now)" by (cases x)
  from Cons.prems(4) x have w: "t0 \<le> now" "now \<le> t0 + VAD_REQUIRED_SILENCE_MS"
    and rest: "\<forall>(rms, now) \<in> set ss. t0 \<le> now \<and> now \<le> t0 + VAD_REQUIRED_SILENCE_MS"
    by simp_all
  note f = tick_fields[OF Cons.prems(1), of rms now]
  from w Cons.prems(3) have "\<not> now - lastAboveThresholdMsRef s > VAD_REQUIRED_SILENCE_MS"
    by simp
  then have q: "\<not> double_minus now (lastAboveThresholdMsRef s) > VAD_REQUIRED_SILENCE_MS"
    using double_minus_gt_silence by blast
  have 1: "analyserRef (tick rms now s)" using Cons.prems(1) by simp
  have 2: "isSpeakingRef (tick rms now s)" using f(2) q Cons.prems(2) by simp
  have 3: "t0 \<le> lastAboveThresholdMsRef (tick rms now s)" using f(1) w(1) Cons.prems(3) by simp
  have 4: "interviewerState (tick rms now s) = interviewerState s"
    using f(3) q Cons.prems(2) by simp
  from Cons.IH[OF 1 2 3 rest] 4 x show ?case by (simp add: vad_run_Cons)
qed

text \<open>
  C5 (hysteresis of the sampler), as amended. The sampler runs alone, its analyser in
  place; the thresholds are the doubles written \<^verbatim>\<open>0.04\<close> and \<^verbatim>\<open>0.02\<close>. First: after a
  sample at or above the start threshold, taken when the sampler was not marked speaking
  or the state was already \<^verbatim>\<open>talking\<close>, further samples taken within 300 ms of that
  sample leave the state \<^verbatim>\<open>talking\<close>, whatever their values. Second: a sample turns the
  state to \<^verbatim>\<open>idle\<close> only if it is below the stop threshold and taken more than 300 ms
  after the last sample at or above the start threshold, the difference of the two clock
  readings as computed in double precision exceeding 300 as well. Third: on a sampler
  marked speaking, a sample below the stop threshold for which that computed difference
  exceeds 300 does turn the state to \<^verbatim>\<open>idle\<close>.
\<close>

theorem vad_hysteresis:
  assumes an: "analyserRef s"
  shows "((\<not> isSpeakingRef s \<or> interviewerState s = Talking) \<and> rms0 \<ge> VAD_START_THRESHOLD \<and>
          (\<forall>(rms, now) \<in> set ss. t0 \<le> now \<and> now \<le> t0 + 300) \<longrightarrow>
            interviewerState (vad_run ((rms0, t0) # ss) s) = Talking) \<and>
         (interviewerState (vad_run ss' s) \<noteq> Idle \<and>
          interviewerState (vad_run (ss' @ [(rms, now)]) s) = Idle \<longrightarrow>
            rms < VAD_STOP_THRESHOLD \<and>
            now - last_above ss' (lastAboveThresholdMsRef s) > 300 \<and>
            double_minus now (last_above ss' (lastAboveThresholdMsRef s)) > 300) \<and>
         (isSpeakingRef (vad_run ss' s) \<and> rms < VAD_STOP_THRESHOLD \<and>
          double_minus now (last_above ss' (lastAboveThresholdMsRef s)) > 300 \<longrightarrow>
            interviewerState (vad_run (ss' @ [(rms, now)]) s) = Idle)"
proof (intro conjI impI)
  assume h: "(\<not> isSpeakingRef s \<or> interviewerState s = Talking) \<and> rms0 \<ge> VAD_START_THRESHOLD \<and>
          (\<forall>(rms, now) \<in> set ss. t0 \<le> now \<and> now \<le> t0 + 300)"
  let ?s1 = "tick rms0 t0 s"
  note f = tick_fields[OF an, of rms0 t0]
  from h have loud: "rms0 \<ge> VAD_START_THRESHOLD" by blast
  have 1: "analyserRef ?s1" using an by simp
  have 2: "isSpeakingRef ?s1" using f(2) loud by simp
  have 3: "t0 \<le> lastAboveThresholdMsRef ?s1" using f(1) loud by simp
  have 4: "interviewerState ?s1 = Talking" using f(3) loud h by auto
  from h have w: "\<forall>(rms, now) \<in> set ss. t0 \<le> now \<and> now \<le> t0 + VAD_REQUIRED_SILENCE_MS"
    by (simp add: VAD_REQUIRED_SILENCE_MS_def)
  from vad_run_holds[OF 1 2 3 w] 4
  show "interviewerState (vad_run ((rms0, t0) # ss) s) = Talking"
    by (simp add: vad_run_Cons)
next
  let ?s' = "vad_run ss' s"
  have an': "analyserRef ?s'" using an by simp
  note f = tick_fields(3)[OF an', of rms now]
  note l = vad_run_last_above[OF an, of ss']
  {
    assume h: "interviewerState ?s' \<noteq> Idle \<and>
               interviewerState (vad_run (ss' @ [(rms, now)]) s) = Idle"
    with f l show "rms < VAD_STOP_THRESHOLD"
      by (auto simp: vad_run_snoc split: if_splits)
    from h f l
    have d: "double_minus now (last_above ss' (lastAboveThresholdMsRef s)) > VAD_REQUIRED_SILENCE_MS"
      by (auto simp: vad_run_snoc split: if_splits)
    then show "double_minus now (last_above ss' (lastAboveThresholdMsRef s)) > 300"
      by (simp add: VAD_REQUIRED_SILENCE_MS_def)
    from double_minus_gt_silence[OF d]
    show "now - last_above ss' (lastAboveThresholdMsRef s) > 300"
      by (simp add: VAD_REQUIRED_SILENCE_MS_def)
  }
  {
    assume h: "isSpeakingRef ?s' \<and> rms < VAD_STOP_THRESHOLD \<and>
               double_minus now (last_above ss' (lastAboveThresholdMsRef s)) > 300"
    have "VAD_STOP_THRESHOLD < VAD_START_THRESHOLD" by code_simp
    with h have "\<not> rms \<ge> VAD_START_THRESHOLD" by simp
    with h f l show "interviewerState (vad_run (ss' @ [(rms, now)]) s) = Idle"
      by (simp add: vad_run_snoc VAD_REQUIRED_SILENCE_MS_def)
  }
qed

theorem vad_hysteresis_witness:
  "interviewerState
     (vad_run [(to_double (5 / 100), 1000), (to_double (1 / 100), 1050),
               (to_double (1 / 100), 1100), (to_double (1 / 100), 1150),
               (to_double (1 / 100), 1200), (to_double (1 / 100), 1250)]
        (setupVoiceActivityDetection session_state)) = Talking \<and>
   interviewerState
     (vad_run ([(to_double (5 / 100), 1000), (to_double (1 / 100), 1250)] @
               [(to_double (1 / 100), 1301)])
        (setupVoiceActivityDetection session_state)) = Idle"
proof -
  let ?s = "setupVoiceActivityDetection session_state"
  let ?ss = "[(to_double (1 / 100), 1050), (to_double (1 / 100), 1100), (to_double (1 / 100), 1150),
              (to_double (1 / 100), 1200), (to_double (1 / 100), 1250)] :: (rat \<times> rat) list"
  let ?ss' = "[(to_double (5 / 100), 1000), (to_double (1 / 100), 1250)] :: (rat \<times> rat) list"
  have an: "analyserRef ?s" by code_simp
  have h1: "(\<not> isSpeakingRef ?s \<or> interviewerState ?s = Talking) \<and>
            to_double (5 / 100) \<ge> VAD_START_THRESHOLD \<and>
            (\<forall>(rms, now) \<in> set ?ss. (1000::rat) \<le> now \<and> now \<le> 1000 + 300)"
    by code_simp
  have h2: "isSpeakingRef (vad_run ?ss' ?s) \<and> to_double (1 / 100) < VAD_STOP_THRESHOLD \<and>
            double_minus 1301 (last_above ?ss' (lastAboveThresholdMsRef ?s)) > 300"
    by code_simp
  note v = vad_hysteresis[OF an, of "to_double (5 / 100)" ?ss 1000 ?ss' "to_double (1 / 100)" 1301]
  from v h1 have "interviewerState (vad_run ((to_double (5 / 100), 1000) # ?ss) ?s) = Talking"
    by blast
  moreover from v h2
  have "interviewerState (vad_run (?ss' @ [(to_double (1 / 100), 1301)]) ?s) = Idle" by blast
  ultimately show ?thesis by simp
qed

theorem continuous_silence_counterexample:
  "interviewerState
     (vad_run [(to_double (5 / 100), 0), (to_double (3 / 100), 100), (to_double (3 / 100), 200)]
        (setupVoiceActivityDetection session_state)) = Talking \<and>
   interviewerState
     (vad_run [(to_double (5 / 100), 0), (to_double (3 / 100), 100), (to_double (3 / 100), 200),
               (to_double (1 / 100), 301)]
        (setupVoiceActivityDetection session_state)) = Idle \<and>
   continuous_silence_ms
     [(to_double (5 / 100), 0), (to_double (3 / 100), 100), (to_double (3 / 100), 200),
      (to_double (1 / 100), 301)] = 0"
  by code_simp

text \<open>At the readings 0.1 and 300.1 the sampler stays \<^verbatim>\<open>talking\<close>, the computed difference
  being 300.\<close>

lemma boundary_sample_stays_talking:
  "interviewerState
     (vad_run [(to_double (5 / 100), to_double (1 / 10)), (to_double (1 / 100), to_double (3001 / 10))]
        (setupVoiceActivityDetection session_state)) = Talking"
  by code_simp

section \<open>Teardown\<close>

text \<open>What teardown resets when a peer connection is there.\<close>

lemma stopSession_resets:
  assumes "peerConnection s"
  shows "pendingCompletion (snd (stopSession s)) = None"
    and "interviewerState (snd (stopSession s)) = Idle"
    and "isInterviewCompleted (snd (stopSession s)) = False"
    and "completionSummary (snd (stopSession s)) = JStr []"
    and "completionReason (snd (stopSession s)) = JStr []"
    and "fst (stopSession s) = None"
  using assms by (simp_all add: stopSession_def Let_def)

lemma stopSession_cancels_sampler:
  assumes "peerConnection s" "vadRafRef s = Some h" "h \<noteq> 0"
  shows "h \<notin> frames (snd (stopSession s))" and "vadRafRef (snd (stopSession s)) = None"
  using assms by (simp_all add: stopSession_def cancelAnimationFrame_def Let_def)

text \<open>
  C4 (cleanup on stop): the code at an input where it fails. The remote track has arrived,
  a fragment for call \<^verbatim>\<open>c1\<close> is buffered, a talk-start event has armed the fallback timer
  (handle 2, due at 5000 ms) and a completion for call \<^verbatim>\<open>c2\<close> is pending when the session
  is stopped. The pending completion is cleared, the presentation state is \<^verbatim>\<open>idle\<close> and
  the sampler's frame is cancelled; but the buffer of \<^verbatim>\<open>c1\<close> is still in the store and the
  fallback timer is still armed, so that it fires later.
\<close>

theorem stop_leaves_buffers_and_timer:
  \<open>pendingCompletion
     (exec ecma
        [Track,
         Message ''e1'' 0 (delta_event ''c1'' ''complete_interview'' ''{"sum''),
         Message ''e2'' 1000 (typed_event ''response.created''),
         Message ''e3'' 1100 (done_event ''c2'' ''complete_interview''),
         Stop] session_state) = None \<and>
   interviewerState
     (exec ecma
        [Track,
         Message ''e1'' 0 (delta_event ''c1'' ''complete_interview'' ''{"sum''),
         Message ''e2'' 1000 (typed_event ''response.created''),
         Message ''e3'' 1100 (done_event ''c2'' ''complete_interview''),
         Stop] session_state) = Idle \<and>
   vadRafRef
     (exec ecma
        [Track,
         Message ''e1'' 0 (delta_event ''c1'' ''complete_interview'' ''{"sum''),
         Message ''e2'' 1000 (typed_event ''response.created''),
         Message ''e3'' 1100 (done_event ''c2'' ''complete_interview''),
         Stop] session_state) = None \<and>
   toolCallBuffersRef
     (exec ecma
        [Track,
         Message ''e1'' 0 (delta_event ''c1'' ''complete_interview'' ''{"sum''),
         Message ''e2'' 1000 (typed_event ''response.created''),
         Message ''e3'' 1100 (done_event ''c2'' ''complete_interview''),
         Stop] session_state) ''c1'' = Some ''{"sum'' \<and>
   timeouts
     (exec ecma
        [Track,
         Message ''e1'' 0 (delta_event ''c1'' ''complete_interview'' ''{"sum''),
         Message ''e2'' 1000 (typed_event ''response.created''),
         Message ''e3'' 1100 (done_event ''c2'' ''complete_interview''),
         Stop] session_state) 2 = Some 5000 \<and>
   pendingCompletion
     (exec ecma
        [Track,
         Message ''e1'' 0 (delta_event ''c1'' ''complete_interview'' ''{"sum''),
         Message ''e2'' 1000 (typed_event ''response.created''),
         Message ''e3'' 1100 (done_event ''c2'' ''complete_interview'')] session_state) =
     Some \<lparr>summary = JStr [], reason = JStr []\<rparr>\<close>
  by code_simp

end
